theory Spec2Isabelle
  imports Main "HOL-Library.Word"
begin

section \<open>Python values\<close>

text \<open>
  The development embeds \<^verbatim>\<open>scripts/freelancer-tests/oauth2_flow.py\<close>: the OAuth callback
  handler, the authorization URL builder, the two token requests and \<^verbatim>\<open>main\<close>.

  A Python \<^verbatim>\<open>str\<close> is a sequence of Unicode code points and is modelled as a list of
  naturals; a \<^verbatim>\<open>bytes\<close> object is a list of naturals below 256. The request target
  \<^verbatim>\<open>self.path\<close> is the one string that comes from the wire: \<^verbatim>\<open>http.server\<close> decodes the
  request line as ISO-8859-1, so each of its characters is a code point below 256, and
  it is modelled as a \<^typ>\<open>string\<close> (a list of 8-bit characters).
\<close>

type_synonym pystr = "nat list"
type_synonym pybytes = "nat list"

definition str :: "string \<Rightarrow> pystr" where
  "str s = map of_char s"

text \<open>An exception is its class name and its message (what \<^verbatim>\<open>str(e)\<close> gives).\<close>

datatype py_exception = PyExc (exc_class: string) (exc_message: pystr)

text \<open>
  The values \<^verbatim>\<open>response.json()\<close> can return. \<^verbatim>\<open>JNull\<close> is Python's \<^verbatim>\<open>None\<close>; a float is
  kept as its IEEE-754 binary64 bit pattern; a dict keeps its keys in insertion order.
\<close>

datatype json =
    JNull
  | JBool bool
  | JInt int
  | JFloat "64 word"
  | JStr pystr
  | JList "json list"
  | JDict "(pystr \<times> json) list"

section \<open>The standard library functions the handler calls\<close>

subsection \<open>Splitting\<close>

text \<open>\<^verbatim>\<open>s.split(sep)\<close> for a one-character separator: never empty, \<^verbatim>\<open>''.split(sep) == ['']\<close>.\<close>

fun split :: "'a \<Rightarrow> 'a list \<Rightarrow> 'a list list" where
  "split sep [] = [[]]"
| "split sep (c # cs) =
     (let r = split sep cs in if c = sep then [] # r else (c # hd r) # tl r)"

text \<open>\<^verbatim>\<open>name, has_eq, value = s.partition(sep)\<close>, without the middle component.\<close>

definition partition_at :: "'a \<Rightarrow> 'a list \<Rightarrow> 'a list \<times> 'a list" where
  "partition_at sep s = (takeWhile (\<lambda>c. c \<noteq> sep) s, drop 1 (dropWhile (\<lambda>c. c \<noteq> sep) s))"

subsection \<open>UTF-8\<close>

definition is_continuation :: "nat \<Rightarrow> bool" where
  "is_continuation b \<longleftrightarrow> 128 \<le> b \<and> b < 192"

definition REPLACEMENT :: nat where
  "REPLACEMENT = 65533"

text \<open>
  \<^verbatim>\<open>bytes.decode('utf-8', 'replace')\<close> as CPython's decoder does it. An invalid start
  byte is replaced alone; a sequence broken by a byte that cannot continue it is replaced
  up to that byte, which is read again; a sequence cut off by the end of the input is
  replaced as a whole. Overlong forms (\<^verbatim>\<open>C0\<close>, \<^verbatim>\<open>C1\<close>, \<^verbatim>\<open>E0 80..9F\<close>, \<^verbatim>\<open>F0 80..8F\<close>),
  surrogates (\<^verbatim>\<open>ED A0..BF\<close>) and code points above U+10FFFF are invalid.
\<close>

fun utf8_decode :: "pybytes \<Rightarrow> pystr" where
  "utf8_decode [] = []"
| "utf8_decode (b # bs) =
     (if b < 128 then b # utf8_decode bs
      else if b < 194 then REPLACEMENT # utf8_decode bs
      else if b < 224 then
        (case bs of
           [] \<Rightarrow> [REPLACEMENT]
         | b2 # r2 \<Rightarrow>
             if is_continuation b2 then ((b - 192) * 64 + (b2 - 128)) # utf8_decode r2
             else REPLACEMENT # utf8_decode bs)
      else if b < 240 then
        (case bs of
           [] \<Rightarrow> [REPLACEMENT]
         | b2 # r2 \<Rightarrow>
             if \<not> is_continuation b2 \<or> (b = 224 \<and> b2 < 160) \<or> (b = 237 \<and> 160 \<le> b2)
             then REPLACEMENT # utf8_decode bs
             else
               (case r2 of
                  [] \<Rightarrow> [REPLACEMENT]
                | b3 # r3 \<Rightarrow>
                    if is_continuation b3
                    then ((b - 224) * 4096 + (b2 - 128) * 64 + (b3 - 128)) # utf8_decode r3
                    else REPLACEMENT # utf8_decode r2))
      else if b < 245 then
        (case bs of
           [] \<Rightarrow> [REPLACEMENT]
         | b2 # r2 \<Rightarrow>
             if \<not> is_continuation b2 \<or> (b = 240 \<and> b2 < 144) \<or> (b = 244 \<and> 144 \<le> b2)
             then REPLACEMENT # utf8_decode bs
             else
               (case r2 of
                  [] \<Rightarrow> [REPLACEMENT]
                | b3 # r3 \<Rightarrow>
                    if \<not> is_continuation b3 then REPLACEMENT # utf8_decode r2
                    else
                      (case r3 of
                         [] \<Rightarrow> [REPLACEMENT]
                       | b4 # r4 \<Rightarrow>
                           if is_continuation b4
                           then ((b - 240) * 262144 + (b2 - 128) * 4096
                                  + (b3 - 128) * 64 + (b4 - 128)) # utf8_decode r4
                           else REPLACEMENT # utf8_decode r3)))
      else REPLACEMENT # utf8_decode bs)"

text \<open>
  \<^verbatim>\<open>str.encode()\<close>: UTF-8, strict. A surrogate cannot be encoded and raises; a number
  from U+110000 on is no code point of a Python string and is refused the same way.
\<close>

definition encode_char :: "nat \<Rightarrow> py_exception + pybytes" where
  "encode_char c =
     (if c < 128 then Inr [c]
      else if c < 2048 then Inr [192 + c div 64, 128 + c mod 64]
      else if c < 65536 then
        (if 55296 \<le> c \<and> c < 57344
         then Inl (PyExc ''UnicodeEncodeError'' (str ''surrogates not allowed''))
         else Inr [224 + c div 4096, 128 + c div 64 mod 64, 128 + c mod 64])
      else if c < 1114112 then
        Inr [240 + c div 262144, 128 + c div 4096 mod 64, 128 + c div 64 mod 64, 128 + c mod 64]
      else Inl (PyExc ''UnicodeEncodeError'' (str ''not a code point'')))"

fun encode :: "pystr \<Rightarrow> py_exception + pybytes" where
  "encode [] = Inr []"
| "encode (c # cs) =
     (case encode_char c of
        Inl e \<Rightarrow> Inl e
      | Inr bs \<Rightarrow> (case encode cs of Inl e \<Rightarrow> Inl e | Inr rest \<Rightarrow> Inr (bs @ rest)))"

text \<open>
  The numbers that are code points UTF-8 can encode: below U+110000 and no surrogate.
\<close>

definition valid_cp :: "nat \<Rightarrow> bool" where
  "valid_cp c \<longleftrightarrow> c < 1114112 \<and> \<not> (55296 \<le> c \<and> c < 57344)"

subsection \<open>Percent-decoding\<close>

definition is_hexdig :: "nat \<Rightarrow> bool" where
  "is_hexdig c \<longleftrightarrow> (48 \<le> c \<and> c \<le> 57) \<or> (65 \<le> c \<and> c \<le> 70) \<or> (97 \<le> c \<and> c \<le> 102)"

definition hexval :: "nat \<Rightarrow> nat" where
  "hexval c = (if c \<le> 57 then c - 48 else if c \<le> 70 then c - 55 else c - 87)"

text \<open>
  \<^verbatim>\<open>unquote_to_bytes\<close> on an ASCII string: split at \<^verbatim>\<open>%\<close>; a piece that starts with two
  hexadecimal digits yields that byte and the rest of the piece, any other piece keeps
  its \<^verbatim>\<open>%\<close>.
\<close>

definition unquote_item :: "pybytes \<Rightarrow> pybytes" where
  "unquote_item item =
     (case item of
        a # b # rest \<Rightarrow>
          if is_hexdig a \<and> is_hexdig b then (16 * hexval a + hexval b) # rest else 37 # item
      | _ \<Rightarrow> 37 # item)"

definition unquote_to_bytes :: "pystr \<Rightarrow> pybytes" where
  "unquote_to_bytes string =
     (let bits = split 37 string in hd bits @ concat (map unquote_item (tl bits)))"

text \<open>
  The loop of \<^verbatim>\<open>unquote\<close> over \<^verbatim>\<open>_asciire.split(string)\<close>: the runs of ASCII characters are
  percent-decoded and read as UTF-8, the runs of other characters are kept.
\<close>

function unquote_bits :: "pystr \<Rightarrow> pystr" where
  "unquote_bits s =
     (if s = [] then []
      else if hd s < 128 then
        utf8_decode (unquote_to_bytes (takeWhile (\<lambda>c. c < 128) s))
          @ unquote_bits (dropWhile (\<lambda>c. c < 128) s)
      else takeWhile (\<lambda>c. \<not> c < 128) s @ unquote_bits (dropWhile (\<lambda>c. \<not> c < 128) s))"
  by pat_completeness auto
termination
proof (relation "measure length")
  show "wf (measure length)" by simp
next
  fix s :: pystr
  assume "s \<noteq> []" "hd s < 128"
  then show "(dropWhile (\<lambda>c. c < 128) s, s) \<in> measure length"
    by (cases s) (simp_all add: less_Suc_eq_le length_dropWhile_le)
next
  fix s :: pystr
  assume "s \<noteq> []" "\<not> hd s < 128"
  then show "(dropWhile (\<lambda>c. \<not> c < 128) s, s) \<in> measure length"
    by (cases s) (simp_all add: less_Suc_eq_le length_dropWhile_le)
qed

declare unquote_bits.simps [simp del]

definition unquote :: "pystr \<Rightarrow> pystr" where
  "unquote string = (if 37 \<notin> set string then string else unquote_bits string)"

definition unquote_plus :: "pystr \<Rightarrow> pystr" where
  "unquote_plus string = unquote (map (\<lambda>c. if c = 43 then 32 else c) string)"

subsection \<open>Query strings\<close>

text \<open>
  \<^verbatim>\<open>parse_qsl(qs)\<close> with its defaults (\<^verbatim>\<open>keep_blank_values=False\<close>,
  \<^verbatim>\<open>strict_parsing=False\<close>, separator \<^verbatim>\<open>&\<close>): an empty field, a field without \<^verbatim>\<open>=\<close> and a
  field with an empty value are dropped.
\<close>

definition parse_field :: "pystr \<Rightarrow> (pystr \<times> pystr) list" where
  "parse_field name_value =
     (if name_value \<noteq> [] then
        (let (name, val) = partition_at 61 name_value
         in if val \<noteq> [] then [(unquote_plus name, unquote_plus val)] else [])
      else [])"

definition parse_qsl :: "pystr \<Rightarrow> (pystr \<times> pystr) list" where
  "parse_qsl qs = (if qs = [] then [] else concat (map parse_field (split 38 qs)))"

text \<open>\<^verbatim>\<open>parse_qs\<close>: the dict from each name to the list of its values, in order.\<close>

definition add_pair :: "(pystr \<rightharpoonup> pystr list) \<Rightarrow> pystr \<times> pystr \<Rightarrow> (pystr \<rightharpoonup> pystr list)" where
  "add_pair parsed_result nv =
     (case parsed_result (fst nv) of
        Some vs \<Rightarrow> parsed_result(fst nv \<mapsto> vs @ [snd nv])
      | None \<Rightarrow> parsed_result(fst nv \<mapsto> [snd nv]))"

definition parse_qs :: "pystr \<Rightarrow> (pystr \<rightharpoonup> pystr list)" where
  "parse_qs qs = foldl add_pair Map.empty (parse_qsl qs)"

subsection \<open>Splitting a URL\<close>

record SplitResult =
  scheme :: string
  netloc :: string
  url :: string
  query :: string
  fragment :: string

definition is_scheme_char :: "char \<Rightarrow> bool" where
  "is_scheme_char c \<longleftrightarrow>
     (let n = (of_char c :: nat)
      in (97 \<le> n \<and> n \<le> 122) \<or> (65 \<le> n \<and> n \<le> 90) \<or> (48 \<le> n \<and> n \<le> 57)
         \<or> c = CHR ''+'' \<or> c = CHR ''-'' \<or> c = CHR ''.'')"

definition is_ascii_alpha :: "char \<Rightarrow> bool" where
  "is_ascii_alpha c \<longleftrightarrow>
     (let n = (of_char c :: nat) in (97 \<le> n \<and> n \<le> 122) \<or> (65 \<le> n \<and> n \<le> 90))"

definition lower :: "char \<Rightarrow> char" where
  "lower c = (let n = (of_char c :: nat) in if 65 \<le> n \<and> n \<le> 90 then char_of (n + 32) else c)"

definition is_netloc_delim :: "char \<Rightarrow> bool" where
  "is_netloc_delim c \<longleftrightarrow> c = CHR ''/'' \<or> c = CHR ''?'' \<or> c = CHR ''#''"

text \<open>
  \<^verbatim>\<open>urlsplit(url)\<close> of CPython 3.11 on a string of characters below U+0100. Leading
  characters up to the space are stripped and tab, carriage return and line feed are
  removed everywhere; a scheme is split off at the first colon when everything before it
  is a scheme character and the first character is a letter; an authority follows
  \<^verbatim>\<open>//\<close> up to the next \<^verbatim>\<open>/\<close>, \<^verbatim>\<open>?\<close> or \<^verbatim>\<open>#\<close>; the fragment starts at the first \<^verbatim>\<open>#\<close> of
  what is left and the query at the first \<^verbatim>\<open>?\<close> before it.

  It raises \<^verbatim>\<open>ValueError\<close> when the authority has one square bracket without the other,
  or a bracketed host that \<^verbatim>\<open>_check_bracketed_host\<close> refuses. That check (the \<^verbatim>\<open>ipaddress\<close>
  module) is the parameter \<open>bracketed_host_ok\<close>. The last check, \<^verbatim>\<open>_checknetloc\<close>, never
  raises on these strings: NFKC normalization of characters below U+0100 produces none
  of \<^verbatim>\<open>/ ? # @ :\<close>.
\<close>

definition urlsplit :: "(string \<Rightarrow> bool) \<Rightarrow> string \<Rightarrow> py_exception + SplitResult" where
  "urlsplit bracketed_host_ok url0 =
     (let url1 = dropWhile (\<lambda>c. (of_char c :: nat) \<le> 32) url0;
          url2 = filter (\<lambda>c. c \<noteq> CHR 0x09 \<and> c \<noteq> CHR 0x0D \<and> c \<noteq> CHR 0x0A) url1;
          pre = takeWhile (\<lambda>c. c \<noteq> CHR '':'') url2;
          has_scheme = (CHR '':'' \<in> set url2 \<and> pre \<noteq> [] \<and> is_ascii_alpha (hd url2)
                         \<and> list_all is_scheme_char pre);
          scheme1 = (if has_scheme then map lower pre else []);
          url3 = (if has_scheme then drop (length pre + 1) url2 else url2);
          has_netloc = (take 2 url3 = ''//'');
          netloc1 = (if has_netloc then takeWhile (\<lambda>c. \<not> is_netloc_delim c) (drop 2 url3) else []);
          url4 = (if has_netloc then dropWhile (\<lambda>c. \<not> is_netloc_delim c) (drop 2 url3) else url3);
          (url5, fragment1) = partition_at (CHR ''#'') url4;
          (url6, query1) = partition_at (CHR ''?'') url5
      in if (CHR ''['' \<in> set netloc1 \<and> CHR '']'' \<notin> set netloc1)
            \<or> (CHR '']'' \<in> set netloc1 \<and> CHR ''['' \<notin> set netloc1)
         then Inl (PyExc ''ValueError'' (str ''Invalid IPv6 URL''))
         else if CHR ''['' \<in> set netloc1 \<and> CHR '']'' \<in> set netloc1
                 \<and> \<not> bracketed_host_ok
                      (fst (partition_at (CHR '']'') (snd (partition_at (CHR ''['') netloc1))))
         then Inl (PyExc ''ValueError'' (str ''invalid bracketed host''))
         else Inr \<lparr>scheme = scheme1, netloc = netloc1, url = url6,
                   query = query1, fragment = fragment1\<rparr>)"

section \<open>The callback handler\<close>

text \<open>
  What the handler writes: the status of \<^verbatim>\<open>send_response\<close>, the headers of its own
  \<^verbatim>\<open>send_header\<close> calls (\<^verbatim>\<open>http.server\<close> adds \<^verbatim>\<open>Server\<close> and \<^verbatim>\<open>Date\<close>), and the bytes given to
  \<^verbatim>\<open>wfile.write\<close>.
\<close>

record response =
  status :: nat
  headers :: "(string \<times> string) list"
  body :: pybytes

definition success_page :: pybytes where
  "success_page = str
''\<newline>                <html>\<newline>                    <body>\<newline>                        <h1>Authorization successful!</h1>\<newline>                        <p>You can close this window and return to the terminal.</p>\<newline>                    </body>\<newline>                </html>\<newline>            ''"

definition error_page :: "pystr \<Rightarrow> pystr" where
  "error_page error =
     str ''\<newline>                <html>\<newline>                    <body>\<newline>                        <h1>Authorization failed</h1>\<newline>                        <p>Error: ''
     @ error
     @ str ''</p>\<newline>                    </body>\<newline>                </html>\<newline>            ''"

text \<open>\<^verbatim>\<open>xs[0]\<close>: the first element, \<^verbatim>\<open>IndexError\<close> on an empty list.\<close>

definition first :: "'a list \<Rightarrow> py_exception + 'a" where
  "first xs =
     (case xs of
        [] \<Rightarrow> Inl (PyExc ''IndexError'' (str ''list index out of range''))
      | x # _ \<Rightarrow> Inr x)"

text \<open>
  \<^verbatim>\<open>OAuthCallbackHandler.do_GET\<close>. The global \<^verbatim>\<open>auth_code\<close> is passed in and returned
  (\<open>None\<close> is Python's \<^verbatim>\<open>None\<close>). \<open>Inl\<close> is an exception leaving the method; the global is
  then as it was, since every raise comes before the assignment or in the other branch.
  Only the query component of \<^verbatim>\<open>urlparse(self.path)\<close> is read, which \<^verbatim>\<open>urlparse\<close> takes from
  \<^verbatim>\<open>urlsplit\<close> unchanged.
\<close>

definition do_GET ::
  "(string \<Rightarrow> bool) \<Rightarrow> string \<Rightarrow> pystr option \<Rightarrow> py_exception + (pystr option \<times> response)" where
  "do_GET bracketed_host_ok path auth_code =
     (case urlsplit bracketed_host_ok path of
        Inl e \<Rightarrow> Inl e
      | Inr parsed_path \<Rightarrow>
          (let query_params = parse_qs (str (query parsed_path))
           in case query_params (str ''code'') of
                Some codes \<Rightarrow>
                  (case first codes of
                     Inl e \<Rightarrow> Inl e
                   | Inr code \<Rightarrow>
                       Inr (Some code,
                            \<lparr>status = 200, headers = [(''Content-type'', ''text/html'')],
                             body = success_page\<rparr>))
              | None \<Rightarrow>
                  (case first (case query_params (str ''error'') of
                                 Some errors \<Rightarrow> errors
                               | None \<Rightarrow> [str ''Unknown error'']) of
                     Inl e \<Rightarrow> Inl e
                   | Inr error \<Rightarrow>
                       (case encode (error_page error) of
                          Inl e \<Rightarrow> Inl e
                        | Inr page \<Rightarrow>
                            Inr (auth_code,
                                 \<lparr>status = 400, headers = [(''Content-type'', ''text/html'')],
                                  body = page\<rparr>)))))"

subsection \<open>The one-shot server\<close>

text \<open>
  A request as \<^verbatim>\<open>BaseHTTPRequestHandler.parse_request\<close> leaves it: the method in
  \<^verbatim>\<open>self.command\<close>, the request target in \<^verbatim>\<open>self.path\<close>.
\<close>

datatype request = Request (command: string) (path: string)

text \<open>
  What one request gets: a response written by the handler, the error page
  \<^verbatim>\<open>http.server\<close> sends by itself, or an exception out of the handler, which
  \<^verbatim>\<open>socketserver\<close> reports and drops together with the connection.
\<close>

datatype reply = Sent response | SendError nat | Raised py_exception

text \<open>
  Once \<^verbatim>\<open>parse_request\<close> has succeeded, \<^verbatim>\<open>handle_one_request\<close> looks the method
  \<^verbatim>\<open>'do_' + self.command\<close> up; the handler class defines \<^verbatim>\<open>do_GET\<close> alone, and every other
  method is answered with 501.
\<close>

definition handle_one_request ::
  "(string \<Rightarrow> bool) \<Rightarrow> request \<Rightarrow> pystr option \<Rightarrow> pystr option \<times> reply" where
  "handle_one_request bracketed_host_ok rq auth_code =
     (if command rq = ''GET'' then
        (case do_GET bracketed_host_ok (path rq) auth_code of
           Inl e \<Rightarrow> (auth_code, Raised e)
         | Inr (auth_code', r) \<Rightarrow> (auth_code', Sent r))
      else (auth_code, SendError 501))"

text \<open>
  What \<^verbatim>\<open>handle_request\<close> finds when the listening socket becomes readable.
  \<^descr> \<open>NoRequest\<close>: no request line arrives. \<^verbatim>\<open>accept\<close> fails and \<^verbatim>\<open>_handle_request_noblock\<close>
  returns, or the peer closes before sending anything and \<^verbatim>\<open>handle_one_request\<close> returns on
  the empty \<^verbatim>\<open>raw_requestline\<close>, or the line is blank and \<^verbatim>\<open>parse_request\<close> returns
  \<^verbatim>\<open>False\<close> on \<^verbatim>\<open>len(words) == 0\<close>. Nothing is written and no \<^verbatim>\<open>do_\<close> method is called.
  \<^descr> \<open>Broken e\<close>: reading the request raises \<open>e\<close>, which \<^verbatim>\<open>socketserver\<close> reports and drops
  together with the connection.
  \<^descr> \<open>Rejected code\<close>: \<^verbatim>\<open>http.server\<close> answers by itself with \<^verbatim>\<open>send_error(code)\<close> and calls no
  \<^verbatim>\<open>do_\<close> method: 414 for a request line of more than 65536 bytes, 400 for a malformed
  request line or version, 505 for a version from 2.0 on, 431 for oversized headers.
  \<^descr> \<open>Parsed rq\<close>: \<^verbatim>\<open>parse_request\<close> succeeds and leaves the request \<open>rq\<close>.
\<close>

datatype connection = NoRequest | Broken py_exception | Rejected nat | Parsed request

text \<open>
  \<^verbatim>\<open>BaseHTTPRequestHandler.handle\<close> on one connection: the global and what is sent back.
  The handler class keeps \<^verbatim>\<open>protocol_version = "HTTP/1.0"\<close>, so \<^verbatim>\<open>close_connection\<close> stays
  \<^verbatim>\<open>True\<close> and the loop after the first \<^verbatim>\<open>handle_one_request\<close> is never entered.
\<close>

definition handle ::
  "(string \<Rightarrow> bool) \<Rightarrow> connection \<Rightarrow> pystr option \<Rightarrow> pystr option \<times> reply list" where
  "handle bracketed_host_ok c auth_code =
     (case c of
        NoRequest \<Rightarrow> (auth_code, [])
      | Broken e \<Rightarrow> (auth_code, [Raised e])
      | Rejected code \<Rightarrow> (auth_code, [SendError code])
      | Parsed rq \<Rightarrow>
          (let (auth_code', r) = handle_one_request bracketed_host_ok rq auth_code
           in (auth_code', [r])))"

text \<open>
  \<^verbatim>\<open>start_callback_server\<close>. \<open>bind_error\<close> is the \<^verbatim>\<open>OSError\<close> that
  \<^verbatim>\<open>HTTPServer(('localhost', 8080), ...)\<close> raises when it cannot bind the port, if it does;
  the function then raises it. Otherwise there is one call of \<^verbatim>\<open>server.handle_request()\<close>,
  which has no timeout. \<open>incoming\<close> are the connections that reach port 8080, in order. With
  none the call never returns (\<open>None\<close>); otherwise the first is handled and the function
  returns the global, what was sent back and the connections it left unserved.
\<close>

definition start_callback_server ::
  "(string \<Rightarrow> bool) \<Rightarrow> py_exception option \<Rightarrow> connection list \<Rightarrow> pystr option
     \<Rightarrow> (py_exception + pystr option \<times> reply list \<times> connection list) option" where
  "start_callback_server bracketed_host_ok bind_error incoming auth_code =
     (case bind_error of
        Some e \<Rightarrow> Some (Inl e)
      | None \<Rightarrow>
          (case incoming of
             [] \<Rightarrow> None
           | c # rest \<Rightarrow>
               (let (auth_code', replies) = handle bracketed_host_ok c auth_code
                in Some (Inr (auth_code', replies, rest)))))"

section \<open>The authorization URL\<close>

text \<open>The module constants read from the environment.\<close>

record config =
  CLIENT_ID :: pystr
  CLIENT_SECRET :: pystr
  REDIRECT_URI :: pystr

definition AUTH_URL :: pystr where
  "AUTH_URL = str ''https://accounts.freelancer.com/oauth/authorise''"

definition TOKEN_URL :: pystr where
  "TOKEN_URL = str ''https://accounts.freelancer.com/oauth/token''"

text \<open>\<^verbatim>\<open>sep.join(xs)\<close>.\<close>

fun join :: "'a list \<Rightarrow> 'a list list \<Rightarrow> 'a list" where
  "join sep [] = []"
| "join sep [x] = x"
| "join sep (x # y # ys) = x @ sep @ join sep (y # ys)"

definition get_authorization_url :: "config \<Rightarrow> pystr \<Rightarrow> pystr" where
  "get_authorization_url cfg scope =
     (let params = [(str ''response_type'', str ''code''),
                    (str ''client_id'', CLIENT_ID cfg),
                    (str ''redirect_uri'', REDIRECT_URI cfg),
                    (str ''scope'', scope)];
          query_string = join (str ''&'') (map (\<lambda>(k, v). k @ str ''='' @ v) params)
      in AUTH_URL @ str ''?'' @ query_string)"

section \<open>The token requests\<close>

text \<open>
  The object \<^verbatim>\<open>requests.post\<close> returns: \<^verbatim>\<open>status_code\<close>, \<^verbatim>\<open>text\<close> and what \<^verbatim>\<open>json()\<close> gives
  (a value, or the exception it raises on a body that is not JSON).
\<close>

record http_response =
  status_code :: int
  response_text :: pystr
  response_json :: "py_exception + json"

text \<open>
  The network is a parameter: \<open>post url data\<close> is the response to the form \<open>data\<close> posted
  to \<open>url\<close>, or the exception \<^verbatim>\<open>requests.post\<close> raises. What a function does to the
  outside is returned as a trace.
\<close>

type_synonym form = "(pystr \<times> pystr) list"
type_synonym http = "pystr \<Rightarrow> form \<Rightarrow> py_exception + http_response"

datatype effect =
    Print pystr
  | Input pystr
  | Post pystr form
  | ThreadStart
  | BrowserOpen pystr
  | ThreadJoin nat

text \<open>\<^verbatim>\<open>str(n)\<close> of an integer.\<close>

function str_nat :: "nat \<Rightarrow> pystr" where
  "str_nat n = (if n < 10 then [48 + n] else str_nat (n div 10) @ [48 + n mod 10])"
  by pat_completeness auto
termination
  by (relation "measure id") auto

declare str_nat.simps [simp del]

definition str_int :: "int \<Rightarrow> pystr" where
  "str_int i = (if i < 0 then 45 # str_nat (nat (- i)) else str_nat (nat i))"

definition exchange_code_for_token :: "config \<Rightarrow> http \<Rightarrow> pystr \<Rightarrow> json \<times> effect list" where
  "exchange_code_for_token cfg post code =
     (let data = [(str ''grant_type'', str ''authorization_code''),
                  (str ''code'', code),
                  (str ''client_id'', CLIENT_ID cfg),
                  (str ''client_secret'', CLIENT_SECRET cfg),
                  (str ''redirect_uri'', REDIRECT_URI cfg)]
      in case post TOKEN_URL data of
           Inl e \<Rightarrow>
             (JNull, [Post TOKEN_URL data,
                      Print (str ''Error exchanging code for token: '' @ exc_message e)])
         | Inr response \<Rightarrow>
             if status_code response = 200 then
               (case response_json response of
                  Inl e \<Rightarrow>
                    (JNull, [Post TOKEN_URL data,
                             Print (str ''Error exchanging code for token: '' @ exc_message e)])
                | Inr token_data \<Rightarrow> (token_data, [Post TOKEN_URL data]))
             else
               (JNull, [Post TOKEN_URL data,
                        Print (str ''Token exchange failed: '' @ str_int (status_code response)),
                        Print (str ''Response: '' @ response_text response)]))"

definition CHECK_MARK :: nat where
  "CHECK_MARK = 10003"

definition BALLOT_X :: nat where
  "BALLOT_X = 10007"

definition client_credentials_flow :: "config \<Rightarrow> http \<Rightarrow> json \<times> effect list" where
  "client_credentials_flow cfg post =
     (let data = [(str ''grant_type'', str ''client_credentials''),
                  (str ''client_id'', CLIENT_ID cfg),
                  (str ''client_secret'', CLIENT_SECRET cfg),
                  (str ''scope'', str ''basic'')];
          begun = [Print (str ''\<newline>Attempting Client Credentials flow...''),
                   Post TOKEN_URL data]
      in case post TOKEN_URL data of
           Inl e \<Rightarrow>
             (JNull, begun @ [Print ([10, BALLOT_X] @ str '' Error: '' @ exc_message e)])
         | Inr response \<Rightarrow>
             if status_code response = 200 then
               (case response_json response of
                  Inl e \<Rightarrow>
                    (JNull, begun @ [Print ([10, BALLOT_X] @ str '' Error: '' @ exc_message e)])
                | Inr token_data \<Rightarrow>
                    (token_data,
                     begun @ [Print ([10, CHECK_MARK]
                                     @ str '' Client Credentials authentication successful!'')]))
             else
               (JNull,
                begun @ [Print ([10, BALLOT_X] @ str '' Client Credentials flow failed: ''
                                @ str_int (status_code response)),
                         Print (str ''Response: '' @ response_text response)]))"

section \<open>The program\<close>

subsection \<open>Built-ins used on the token\<close>

text \<open>Truth of a value in \<^verbatim>\<open>if token_data:\<close>.\<close>

definition truthy :: "json \<Rightarrow> bool" where
  "truthy v =
     (case v of
        JNull \<Rightarrow> False
      | JBool b \<Rightarrow> b
      | JInt i \<Rightarrow> i \<noteq> 0
      | JFloat w \<Rightarrow> w \<noteq> 0 \<and> w \<noteq> 0x8000000000000000
      | JStr t \<Rightarrow> t \<noteq> []
      | JList xs \<Rightarrow> xs \<noteq> []
      | JDict kvs \<Rightarrow> kvs \<noteq> [])"

text \<open>\<^verbatim>\<open>token_data.get(key, dflt)\<close>: only a dict has the method.\<close>

definition dict_get :: "json \<Rightarrow> pystr \<Rightarrow> json \<Rightarrow> py_exception + json" where
  "dict_get token_data key dflt =
     (case token_data of
        JDict kvs \<Rightarrow> Inr (case map_of kvs key of Some v \<Rightarrow> v | None \<Rightarrow> dflt)
      | _ \<Rightarrow> Inl (PyExc ''AttributeError'' (str ''object has no attribute get'')))"

text \<open>\<^verbatim>\<open>v[:n]\<close>: strings and lists can be sliced.\<close>

definition slice_to :: "nat \<Rightarrow> json \<Rightarrow> py_exception + json" where
  "slice_to n v =
     (case v of
        JStr t \<Rightarrow> Inr (JStr (take n t))
      | JList xs \<Rightarrow> Inr (JList (take n xs))
      | _ \<Rightarrow> Inl (PyExc ''TypeError'' (str ''object is not subscriptable'')))"

text \<open>
  \<^verbatim>\<open>f"{v}"\<close>. The text of a float, a list or a dict is that of Python's \<^verbatim>\<open>repr\<close>, the
  parameter \<open>py_repr\<close>.
\<close>

definition format_value :: "(json \<Rightarrow> pystr) \<Rightarrow> json \<Rightarrow> pystr" where
  "format_value py_repr v =
     (case v of
        JStr t \<Rightarrow> t
      | JNull \<Rightarrow> str ''None''
      | JBool b \<Rightarrow> (if b then str ''True'' else str ''False'')
      | JInt i \<Rightarrow> str_int i
      | _ \<Rightarrow> py_repr v)"

text \<open>\<^verbatim>\<open>key in token_data\<close>, reached with a dict only.\<close>

definition has_key :: "json \<Rightarrow> pystr \<Rightarrow> bool" where
  "has_key token_data key = (case token_data of JDict kvs \<Rightarrow> key \<in> fst ` set kvs | _ \<Rightarrow> False)"

definition is_space :: "nat \<Rightarrow> bool" where
  "is_space c \<longleftrightarrow>
     (9 \<le> c \<and> c \<le> 13) \<or> (28 \<le> c \<and> c \<le> 32) \<or> c = 133 \<or> c = 160 \<or> c = 5760
     \<or> (8192 \<le> c \<and> c \<le> 8202) \<or> c = 8232 \<or> c = 8233 \<or> c = 8239 \<or> c = 8287 \<or> c = 12288"

text \<open>\<^verbatim>\<open>s.strip()\<close>.\<close>

definition strip :: "pystr \<Rightarrow> pystr" where
  "strip s = rev (dropWhile is_space (rev (dropWhile is_space s)))"

subsection \<open>Printing\<close>

text \<open>
  A block of \<^verbatim>\<open>print\<close> calls: each line is printed in turn, and the first one whose
  f-string raises ends the block with that exception.
\<close>

fun print_lines :: "(py_exception + pystr) list \<Rightarrow> py_exception option \<times> effect list" where
  "print_lines [] = (None, [])"
| "print_lines (Inl e # ls) = (Some e, [])"
| "print_lines (Inr l # ls) = (let (x, t) = print_lines ls in (x, Print l # t))"

definition then_format ::
  "py_exception + json \<Rightarrow> (json \<Rightarrow> pystr) \<Rightarrow> py_exception + pystr" where
  "then_format r f = (case r of Inl e \<Rightarrow> Inl e | Inr v \<Rightarrow> Inr (f v))"

definition then_slice :: "py_exception + json \<Rightarrow> nat \<Rightarrow> py_exception + json" where
  "then_slice r n = (case r of Inl e \<Rightarrow> Inl e | Inr v \<Rightarrow> slice_to n v)"

definition BAR :: pystr where
  "BAR = replicate 60 61"

definition WARNING_SIGN :: nat where
  "WARNING_SIGN = 9888"

definition FLOPPY_DISK :: nat where
  "FLOPPY_DISK = 128190"

definition access_token_line :: "(json \<Rightarrow> pystr) \<Rightarrow> json \<Rightarrow> py_exception + pystr" where
  "access_token_line py_repr token_data =
     then_format (then_slice (dict_get token_data (str ''access_token'') (JStr [])) 30)
       (\<lambda>v. str ''Access Token: '' @ format_value py_repr v @ str ''...'')"

definition token_type_line :: "(json \<Rightarrow> pystr) \<Rightarrow> json \<Rightarrow> py_exception + pystr" where
  "token_type_line py_repr token_data =
     then_format (dict_get token_data (str ''token_type'') JNull)
       (\<lambda>v. str ''Token Type: '' @ format_value py_repr v)"

definition expires_in_line :: "(json \<Rightarrow> pystr) \<Rightarrow> json \<Rightarrow> py_exception + pystr" where
  "expires_in_line py_repr token_data =
     then_format (dict_get token_data (str ''expires_in'') JNull)
       (\<lambda>v. str ''Expires In: '' @ format_value py_repr v @ str '' seconds'')"

definition refresh_token_line :: "(json \<Rightarrow> pystr) \<Rightarrow> json \<Rightarrow> py_exception + pystr" where
  "refresh_token_line py_repr token_data =
     then_format (then_slice (dict_get token_data (str ''refresh_token'') JNull) 30)
       (\<lambda>v. str ''Refresh Token: '' @ format_value py_repr v @ str ''...'')"

definition env_lines :: "(json \<Rightarrow> pystr) \<Rightarrow> json \<Rightarrow> (py_exception + pystr) list" where
  "env_lines py_repr token_data =
     [Inr ([10, FLOPPY_DISK] @ str '' Add this to your .env file:''),
      then_format (dict_get token_data (str ''access_token'') JNull)
        (\<lambda>v. str ''FREELANCER_ACCESS_TOKEN='' @ format_value py_repr v),
      Inr BAR]"

subsection \<open>main\<close>

definition missing_credentials_help :: "effect list" where
  "missing_credentials_help =
     [Print ([10, WARNING_SIGN] @ str '' Missing OAuth2 credentials!''),
      Print (str ''\<newline>To use OAuth2, you need to:''),
      Print (str ''1. Go to: https://accounts.freelancer.com/settings/develop''),
      Print (str ''2. Create a new application''),
      Print (str ''3. Add these to your .env file:''),
      Print (str ''   FREELANCER_CLIENT_ID=your_client_id''),
      Print (str ''   FREELANCER_CLIENT_SECRET=your_client_secret''),
      Print (str ''   FREELANCER_REDIRECT_URI=http://localhost:8080/callback''),
      Print (10 # BAR)]"

text \<open>
  The branch \<^verbatim>\<open>choice == '1'\<close>. The listener runs in its own thread while the browser is
  opened; \<open>incoming\<close> are the connections that reach it before \<^verbatim>\<open>join(timeout=60)\<close> returns.
  When the listener has not returned by then, or has raised in its thread, the global is
  still \<^verbatim>\<open>None\<close>.
\<close>

definition authorization_code_flow ::
  "config \<Rightarrow> (string \<Rightarrow> bool) \<Rightarrow> (json \<Rightarrow> pystr) \<Rightarrow> http \<Rightarrow> py_exception option
     \<Rightarrow> connection list \<Rightarrow> py_exception option \<times> effect list" where
  "authorization_code_flow cfg bracketed_host_ok py_repr post bind_error incoming =
     (let auth_url = get_authorization_url cfg (str ''basic'');
          opened = [Print (10 # BAR),
                    Print (str ''Starting Authorization Code Flow...''),
                    Print BAR,
                    ThreadStart,
                    Print (str ''\<newline>Opening browser for authorization...''),
                    Print (str ''URL: '' @ auth_url @ [10]),
                    BrowserOpen auth_url,
                    Print (str ''Waiting for authorization...''),
                    ThreadJoin 60];
          auth_code = (case start_callback_server bracketed_host_ok bind_error incoming None of
                         None \<Rightarrow> None
                       | Some (Inl _) \<Rightarrow> None
                       | Some (Inr (auth_code', _, _)) \<Rightarrow> auth_code')
      in case auth_code of
           None \<Rightarrow> (None, opened @ [Print ([10, BALLOT_X] @ str '' Authorization failed or timed out'')])
         | Some code \<Rightarrow>
             if code = [] then
               (None, opened @ [Print ([10, BALLOT_X] @ str '' Authorization failed or timed out'')])
             else
               (let received = [Print ([10, CHECK_MARK] @ str '' Received authorization code!''),
                                Print (str ''Code: '' @ take 20 code @ str ''...''),
                                Print (str ''\<newline>Exchanging code for access token...'')];
                    (token_data, exchanged) = exchange_code_for_token cfg post code
                in if truthy token_data then
                     (let (raised, printed) =
                            print_lines
                              ([Inr (10 # BAR),
                                Inr (CHECK_MARK # str '' Successfully obtained access token!''),
                                Inr BAR,
                                access_token_line py_repr token_data,
                                token_type_line py_repr token_data,
                                expires_in_line py_repr token_data]
                               @ (if has_key token_data (str ''refresh_token'')
                                  then [refresh_token_line py_repr token_data] else [])
                               @ env_lines py_repr token_data)
                      in (raised, opened @ received @ exchanged @ printed))
                   else (None, opened @ received @ exchanged)))"

text \<open>
  \<^verbatim>\<open>main\<close>. \<open>answer\<close> is what \<^verbatim>\<open>input\<close> returns, or the exception it raises at the end of
  the input. The result is the exception that ends \<^verbatim>\<open>main\<close>, if any, and the trace.
\<close>

definition main ::
  "config \<Rightarrow> (string \<Rightarrow> bool) \<Rightarrow> (json \<Rightarrow> pystr) \<Rightarrow> http \<Rightarrow> py_exception + pystr
     \<Rightarrow> py_exception option \<Rightarrow> connection list \<Rightarrow> py_exception option \<times> effect list" where
  "main cfg bracketed_host_ok py_repr post answer bind_error incoming =
     (let banner = [Print BAR, Print (str ''Freelancer.com OAuth2 Authentication''), Print BAR]
      in if CLIENT_ID cfg = [] \<or> CLIENT_SECRET cfg = [] then (None, banner @ missing_credentials_help)
         else
           (let asked = banner @
                  [Print (str ''Client ID: '' @ take 10 (CLIENT_ID cfg) @ str ''...''),
                   Print (str ''Redirect URI: '' @ REDIRECT_URI cfg),
                   Print BAR,
                   Print (str ''\<newline>Select authentication flow:''),
                   Print (str ''1. Authorization Code Flow (user authorization required)''),
                   Print (str ''2. Client Credentials Flow (app-only, no user)''),
                   Input (str ''\<newline>Enter choice (1 or 2): '')]
            in case answer of
                 Inl e \<Rightarrow> (Some e, asked)
               | Inr line \<Rightarrow>
                   (let choice = strip line
                    in if choice = str ''1'' then
                         (let (raised, t) =
                                authorization_code_flow cfg bracketed_host_ok py_repr post
                                  bind_error incoming
                          in (raised, asked @ t))
                       else if choice = str ''2'' then
                         (let (token_data, t) = client_credentials_flow cfg post
                          in if truthy token_data then
                               (let (raised, printed) =
                                      print_lines
                                        ([Inr (10 # BAR),
                                          access_token_line py_repr token_data,
                                          token_type_line py_repr token_data,
                                          expires_in_line py_repr token_data]
                                         @ env_lines py_repr token_data)
                                in (raised, asked @ t @ printed))
                             else (None, asked @ t))
                       else (None, asked @ [Print ([10, BALLOT_X] @ str '' Invalid choice'')]))))"

section \<open>The encoding the specification names\<close>

text \<open>
  Following the specification's words, ``each correctly URL-encoded'': a parameter value
  in which every character other than a letter, a digit and \<^verbatim>\<open>- . _ ~\<close> is written as
  \<^verbatim>\<open>%XX\<close> for each byte of its UTF-8 form, as \<^verbatim>\<open>urllib.parse.quote(v, safe='')\<close> does. The
  source has no such function; this one is only compared with what the source builds.
\<close>

definition is_unreserved :: "nat \<Rightarrow> bool" where
  "is_unreserved c \<longleftrightarrow>
     (48 \<le> c \<and> c \<le> 57) \<or> (65 \<le> c \<and> c \<le> 90) \<or> (97 \<le> c \<and> c \<le> 122)
     \<or> c = 45 \<or> c = 46 \<or> c = 95 \<or> c = 126"

definition hexdigit :: "nat \<Rightarrow> nat" where
  "hexdigit d = (if d < 10 then 48 + d else 55 + d)"

definition url_encoded :: "pystr \<Rightarrow> pystr" where
  "url_encoded v =
     concat (map (\<lambda>c. if is_unreserved c then [c]
                       else concat (map (\<lambda>b. [37, hexdigit (b div 16), hexdigit (b mod 16)])
                                        (case encode_char c of Inr bs \<Rightarrow> bs | Inl _ \<Rightarrow> [])))
                 v)"

section \<open>Sample inputs\<close>

text \<open>The configuration of the examples: client id \<^verbatim>\<open>abc\<close> and the default redirect URI.\<close>

definition example_config :: config where
  "example_config =
     \<lparr>CLIENT_ID = str ''abc'', CLIENT_SECRET = str ''s3cret'',
      REDIRECT_URI = str ''http://localhost:8080/callback''\<rparr>"

text \<open>A bracketed host check that accepts every host; the examples have no bracket.\<close>

definition lenient :: "string \<Rightarrow> bool" where
  "lenient host = True"

text \<open>A token endpoint that refuses every request with status 401.\<close>

definition endpoint_401 :: http where
  "endpoint_401 u data =
     Inr \<lparr>status_code = 401, response_text = str ''Unauthorized'',
          response_json = Inl (PyExc ''JSONDecodeError'' (str ''Expecting value''))\<rparr>"

text \<open>A JSON string literal without escapes: the text between double quotes.\<close>

definition quoted :: "string \<Rightarrow> pystr" where
  "quoted s = [34] @ str s @ [34]"

text \<open>The body \<^verbatim>\<open>{"access_token":"t1","token_type":"bearer","expires_in":3600}\<close>.\<close>

definition body_t1 :: pystr where
  "body_t1 =
     str ''{'' @ quoted ''access_token'' @ str '':'' @ quoted ''t1'' @ str '',''
       @ quoted ''token_type'' @ str '':'' @ quoted ''bearer'' @ str '',''
       @ quoted ''expires_in'' @ str '':3600}''"

text \<open>A token endpoint that grants every request the token \<^verbatim>\<open>t1\<close>.\<close>

definition endpoint_t1 :: http where
  "endpoint_t1 u data =
     Inr \<lparr>status_code = 200,
          response_text = body_t1,
          response_json = Inr (JDict [(str ''access_token'', JStr (str ''t1'')),
                                      (str ''token_type'', JStr (str ''bearer'')),
                                      (str ''expires_in'', JInt 3600)])\<rparr>"

definition is_post :: "effect \<Rightarrow> bool" where
  "is_post e = (case e of Post _ _ \<Rightarrow> True | _ \<Rightarrow> False)"

definition is_console :: "effect \<Rightarrow> bool" where
  "is_console e = (case e of Print _ \<Rightarrow> True | Input _ \<Rightarrow> True | _ \<Rightarrow> False)"

text \<open>A stand-in for \<^verbatim>\<open>repr\<close>, for runs that print no float, list or dict.\<close>

definition no_repr :: "json \<Rightarrow> pystr" where
  "no_repr v = []"

section \<open>The token exchange\<close>

text \<open>
  C6. Whatever status other than 200 the token endpoint answers with, the exchange
  returns \<^verbatim>\<open>None\<close>, prints the status and the raw body, and has posted exactly once: the
  trace holds the one POST and the two printed lines, nothing is retried.
\<close>

theorem exchange_code_for_token_non_200:
  assumes "post TOKEN_URL [(str ''grant_type'', str ''authorization_code''), (str ''code'', code),
             (str ''client_id'', CLIENT_ID cfg), (str ''client_secret'', CLIENT_SECRET cfg),
             (str ''redirect_uri'', REDIRECT_URI cfg)] = Inr r"
    and "status_code r \<noteq> 200"
  shows "exchange_code_for_token cfg post code =
           (JNull,
            [Post TOKEN_URL [(str ''grant_type'', str ''authorization_code''), (str ''code'', code),
               (str ''client_id'', CLIENT_ID cfg), (str ''client_secret'', CLIENT_SECRET cfg),
               (str ''redirect_uri'', REDIRECT_URI cfg)],
             Print (str ''Token exchange failed: '' @ str_int (status_code r)),
             Print (str ''Response: '' @ response_text r)])
         \<and> length (filter is_post (snd (exchange_code_for_token cfg post code))) = 1"
  using assms by (simp add: exchange_code_for_token_def Let_def is_post_def)

theorem exchange_code_for_token_non_200_witness:
  "exchange_code_for_token example_config endpoint_401 (str ''XYZ123'') =
     (JNull,
      [Post (str ''https://accounts.freelancer.com/oauth/token'')
         [(str ''grant_type'', str ''authorization_code''), (str ''code'', str ''XYZ123''),
          (str ''client_id'', str ''abc''), (str ''client_secret'', str ''s3cret''),
          (str ''redirect_uri'', str ''http://localhost:8080/callback'')],
       Print (str ''Token exchange failed: 401''),
       Print (str ''Response: Unauthorized'')])
   \<and> length (filter is_post (snd (exchange_code_for_token example_config endpoint_401 (str ''XYZ123'')))) = 1"
proof -
  have s: "str_int 401 = str ''401''"
    by code_simp
  have a: "str ''Token exchange failed: '' @ str ''401'' = str ''Token exchange failed: 401''"
    by (simp add: str_def)
  have b: "str ''Response: '' @ str ''Unauthorized'' = str ''Response: Unauthorized''"
    by (simp add: str_def)
  show ?thesis
    using exchange_code_for_token_non_200 [of endpoint_401 "str ''XYZ123''" example_config
        "\<lparr>status_code = 401, response_text = str ''Unauthorized'',
          response_json = Inl (PyExc ''JSONDecodeError'' (str ''Expecting value''))\<rparr>"]
    by (simp add: endpoint_401_def example_config_def TOKEN_URL_def is_post_def s a b)
qed

text \<open>
  C7. When the token endpoint answers 200 and its body reads as JSON, the exchange returns
  the parsed value unchanged, after the one POST and without printing. For the body
  \<^verbatim>\<open>{"access_token":"t1","token_type":"bearer","expires_in":3600}\<close> that is the dict of
  exactly these three entries, with no \<^verbatim>\<open>refresh_token\<close>.
\<close>

theorem exchange_code_for_token_verbatim:
  assumes "post TOKEN_URL [(str ''grant_type'', str ''authorization_code''), (str ''code'', code),
             (str ''client_id'', CLIENT_ID cfg), (str ''client_secret'', CLIENT_SECRET cfg),
             (str ''redirect_uri'', REDIRECT_URI cfg)] = Inr r"
    and "status_code r = 200"
    and "response_json r = Inr token_data"
  shows "exchange_code_for_token cfg post code =
           (token_data,
            [Post TOKEN_URL [(str ''grant_type'', str ''authorization_code''), (str ''code'', code),
               (str ''client_id'', CLIENT_ID cfg), (str ''client_secret'', CLIENT_SECRET cfg),
               (str ''redirect_uri'', REDIRECT_URI cfg)]])"
  using assms by (simp add: exchange_code_for_token_def Let_def)

theorem exchange_code_for_token_verbatim_witness:
  "fst (exchange_code_for_token example_config endpoint_t1 (str ''XYZ123'')) =
     JDict [(str ''access_token'', JStr (str ''t1'')),
            (str ''token_type'', JStr (str ''bearer'')),
            (str ''expires_in'', JInt 3600)]
   \<and> \<not> has_key (fst (exchange_code_for_token example_config endpoint_t1 (str ''XYZ123'')))
          (str ''refresh_token'')
   \<and> filter is_post (snd (exchange_code_for_token example_config endpoint_t1 (str ''XYZ123'')))
       = snd (exchange_code_for_token example_config endpoint_t1 (str ''XYZ123''))"
  using exchange_code_for_token_verbatim [of endpoint_t1 "str ''XYZ123''" example_config
      "\<lparr>status_code = 200,
        response_text = body_t1,
        response_json = Inr (JDict [(str ''access_token'', JStr (str ''t1'')),
                                    (str ''token_type'', JStr (str ''bearer'')),
                                    (str ''expires_in'', JInt 3600)])\<rparr>"
      "JDict [(str ''access_token'', JStr (str ''t1'')),
              (str ''token_type'', JStr (str ''bearer'')),
              (str ''expires_in'', JInt 3600)]"]
  by (simp add: endpoint_t1_def has_key_def is_post_def str_def)

section \<open>The callback handler's two branches\<close>

lemma add_pair_nonempty:
  assumes "\<And>k vs. m k = Some vs \<Longrightarrow> vs \<noteq> []" and "add_pair m nv k = Some vs"
  shows "vs \<noteq> []"
  using assms by (auto simp: add_pair_def split: option.splits if_splits)

lemma foldl_add_pair_nonempty:
  assumes "\<And>k vs. m k = Some vs \<Longrightarrow> vs \<noteq> []" and "foldl add_pair m pairs k = Some vs"
  shows "vs \<noteq> []"
  using assms
proof (induction pairs arbitrary: m)
  case Nil
  then show ?case by simp
next
  case (Cons nv pairs)
  show ?case
  proof (rule Cons.IH [of "add_pair m nv"])
    show "\<And>k vs. add_pair m nv k = Some vs \<Longrightarrow> vs \<noteq> []"
      using add_pair_nonempty Cons.prems(1) by blast
    show "foldl add_pair (add_pair m nv) pairs k = Some vs"
      using Cons.prems(2) by simp
  qed
qed

text \<open>Every name \<^verbatim>\<open>parse_qs\<close> returns has at least one value.\<close>

lemma parse_qs_nonempty: "parse_qs qs k = Some vs \<Longrightarrow> vs \<noteq> []"
  unfolding parse_qs_def by (rule foldl_add_pair_nonempty [of Map.empty]) simp_all

lemma do_GET_code_branch:
  assumes "urlsplit ok p = Inr parsed"
    and "parse_qs (str (query parsed)) (str ''code'') = Some codes"
  shows "codes \<noteq> [] \<and> do_GET ok p a =
           Inr (Some (hd codes),
                \<lparr>status = 200, headers = [(''Content-type'', ''text/html'')],
                 body = success_page\<rparr>)"
proof -
  have "codes \<noteq> []" using assms(2) by (rule parse_qs_nonempty)
  then obtain c cs where "codes = c # cs" by (cases codes) auto
  with assms show ?thesis by (simp add: do_GET_def first_def Let_def)
qed










section \<open>The listener and the two modes\<close>

lemma is_console_simps:
  "is_console (Print x)" "is_console (Input x)" "\<not> is_console (Post u d)"
  "\<not> is_console ThreadStart" "\<not> is_console (BrowserOpen u)" "\<not> is_console (ThreadJoin n)"
  by (simp_all add: is_console_def)

lemma print_lines_console: "filter (\<lambda>e. \<not> is_console e) (snd (print_lines ls)) = []"
  by (induction ls rule: print_lines.induct) (simp_all add: split_beta is_console_def)

lemma client_credentials_flow_external:
  "filter (\<lambda>e. \<not> is_console e) (snd (client_credentials_flow cfg post)) =
     [Post TOKEN_URL [(str ''grant_type'', str ''client_credentials''),
                      (str ''client_id'', CLIENT_ID cfg),
                      (str ''client_secret'', CLIENT_SECRET cfg),
                      (str ''scope'', str ''basic'')]]"
  by (simp add: client_credentials_flow_def Let_def is_console_def split: sum.split)

lemma two_not_one: "str ''2'' \<noteq> str ''1''"
  by (simp add: str_def)

lemma strip_answer_2: "strip (str '' 2 '') = str ''2''"
  by code_simp

text \<open>
  C8. When the credentials are set and the answer to the prompt is \<^verbatim>\<open>2\<close>, everything
  \<^verbatim>\<open>main\<close> does apart from printing and reading the answer is one POST to the token
  endpoint, with \<^verbatim>\<open>grant_type=client_credentials\<close>, the client id and secret and the
  scope \<^verbatim>\<open>basic\<close>: no thread is started for the listener and no browser is opened.
\<close>

theorem main_client_credentials_only_posts:
  assumes "CLIENT_ID cfg \<noteq> []" and "CLIENT_SECRET cfg \<noteq> []"
    and "answer = Inr line" and "strip line = str ''2''"
  shows "filter (\<lambda>e. \<not> is_console e)
           (snd (main cfg bracketed_host_ok py_repr post answer bind_error incoming)) =
         [Post TOKEN_URL [(str ''grant_type'', str ''client_credentials''),
                          (str ''client_id'', CLIENT_ID cfg),
                          (str ''client_secret'', CLIENT_SECRET cfg),
                          (str ''scope'', str ''basic'')]]"
  using assms
  by (simp add: main_def Let_def split_beta two_not_one print_lines_console
      client_credentials_flow_external is_console_simps)

theorem main_client_credentials_only_posts_witness:
  "filter (\<lambda>e. \<not> is_console e)
     (snd (main example_config lenient no_repr endpoint_t1 (Inr (str '' 2 '')) None
             [Parsed (Request ''GET'' ''/callback?code=XYZ123'')])) =
   [Post TOKEN_URL [(str ''grant_type'', str ''client_credentials''),
                    (str ''client_id'', str ''abc''),
                    (str ''client_secret'', str ''s3cret''),
                    (str ''scope'', str ''basic'')]]"
proof -
  have id: "CLIENT_ID example_config = str ''abc''"
    and secret: "CLIENT_SECRET example_config = str ''s3cret''"
    by (simp_all add: example_config_def)
  have h1: "CLIENT_ID example_config \<noteq> []" and h2: "CLIENT_SECRET example_config \<noteq> []"
    by (simp_all add: example_config_def str_def)
  show ?thesis
    using main_client_credentials_only_posts [OF h1 h2 refl strip_answer_2,
        of lenient no_repr endpoint_t1 None
          "[Parsed (Request ''GET'' ''/callback?code=XYZ123'')]"]
    by (simp add: id secret)
qed






















section \<open>The authorization URL\<close>

text \<open>
  C1, as stated, fails: the redirect URI is not URL-encoded. Its encoded form is
  \<^verbatim>\<open>http%3A%2F%2Flocalhost%3A8080%2Fcallback\<close>, and the URL built for client id \<^verbatim>\<open>abc\<close> and
  scope \<^verbatim>\<open>basic\<close> has no field \<^verbatim>\<open>redirect_uri\<close> with that value.
\<close>

theorem authorization_url_not_encoded:
  "url_encoded (REDIRECT_URI example_config) = str ''http%3A%2F%2Flocalhost%3A8080%2Fcallback''
   \<and> str ''redirect_uri='' @ url_encoded (REDIRECT_URI example_config)
        \<notin> set (split 38 (get_authorization_url example_config (str ''basic'')))"
proof -
  have "url_encoded (REDIRECT_URI example_config) = str ''http%3A%2F%2Flocalhost%3A8080%2Fcallback''"
    by code_simp
  moreover have "str ''redirect_uri='' @ str ''http%3A%2F%2Flocalhost%3A8080%2Fcallback''
        \<notin> set (split 38 (get_authorization_url example_config (str ''basic'')))"
    by code_simp
  ultimately show ?thesis by simp
qed

text \<open>
  C1, amended. The URL is the authorization endpoint followed by the four parameters
  \<^verbatim>\<open>response_type=code\<close>, \<^verbatim>\<open>client_id\<close>, \<^verbatim>\<open>redirect_uri\<close> and \<^verbatim>\<open>scope\<close>, in this order and with
  their values copied as they are. For client id \<^verbatim>\<open>abc\<close>, the default redirect URI and scope
  \<^verbatim>\<open>basic\<close> it is the URL below, whose query string \<^verbatim>\<open>parse_qsl\<close> reads back as exactly
  these four parameters with these values.
\<close>

theorem authorization_url_verbatim:
  "get_authorization_url cfg scope =
     AUTH_URL @ str ''?response_type=code&client_id='' @ CLIENT_ID cfg
       @ str ''&redirect_uri='' @ REDIRECT_URI cfg @ str ''&scope='' @ scope
   \<and> get_authorization_url example_config (str ''basic'') =
       str ''https://accounts.freelancer.com/oauth/authorise?response_type=code&client_id=abc&redirect_uri=http://localhost:8080/callback&scope=basic''
   \<and> urlsplit lenient
        ''https://accounts.freelancer.com/oauth/authorise?response_type=code&client_id=abc&redirect_uri=http://localhost:8080/callback&scope=basic'' =
       Inr \<lparr>scheme = ''https'', netloc = ''accounts.freelancer.com'', url = ''/oauth/authorise'',
            query = ''response_type=code&client_id=abc&redirect_uri=http://localhost:8080/callback&scope=basic'',
            fragment = []\<rparr>
   \<and> parse_qsl (str ''response_type=code&client_id=abc&redirect_uri=http://localhost:8080/callback&scope=basic'') =
       [(str ''response_type'', str ''code''), (str ''client_id'', str ''abc''),
        (str ''redirect_uri'', str ''http://localhost:8080/callback''),
        (str ''scope'', str ''basic'')]"
proof -
  have "get_authorization_url cfg scope =
     AUTH_URL @ str ''?response_type=code&client_id='' @ CLIENT_ID cfg
       @ str ''&redirect_uri='' @ REDIRECT_URI cfg @ str ''&scope='' @ scope"
    by (simp add: get_authorization_url_def Let_def str_def)
  moreover have "get_authorization_url example_config (str ''basic'') =
       str ''https://accounts.freelancer.com/oauth/authorise?response_type=code&client_id=abc&redirect_uri=http://localhost:8080/callback&scope=basic''"
    by code_simp
  moreover have "urlsplit lenient
        ''https://accounts.freelancer.com/oauth/authorise?response_type=code&client_id=abc&redirect_uri=http://localhost:8080/callback&scope=basic'' =
       Inr \<lparr>scheme = ''https'', netloc = ''accounts.freelancer.com'', url = ''/oauth/authorise'',
            query = ''response_type=code&client_id=abc&redirect_uri=http://localhost:8080/callback&scope=basic'',
            fragment = []\<rparr>"
    by code_simp
  moreover have "parse_qsl (str ''response_type=code&client_id=abc&redirect_uri=http://localhost:8080/callback&scope=basic'') =
       [(str ''response_type'', str ''code''), (str ''client_id'', str ''abc''),
        (str ''redirect_uri'', str ''http://localhost:8080/callback''),
        (str ''scope'', str ''basic'')]"
    by code_simp
  ultimately show ?thesis by blast
qed

section \<open>What the handler decodes can be encoded again\<close>

text \<open>
  The error page is encoded with \<^verbatim>\<open>.encode()\<close>, which raises on a surrogate. The values
  \<^verbatim>\<open>parse_qs\<close> returns for a request target never hold one: the decoder yields valid code
  points only, and the characters it leaves alone are below U+0100.
\<close>

declare utf8_decode.simps(2) [simp del]

lemma valid_cp2:
  "is_continuation b2 \<Longrightarrow> b < 224 \<Longrightarrow> valid_cp ((b - 192) * 64 + (b2 - 128))"
  unfolding is_continuation_def valid_cp_def by linarith

lemma valid_cp3:
  assumes "is_continuation b2" "is_continuation b3" "b < 240" "\<not> b < 224" "\<not> (b = 237 \<and> 160 \<le> b2)"
  shows "valid_cp ((b - 224) * 4096 + (b2 - 128) * 64 + (b3 - 128))"
proof -
  obtain x y z where x: "b = 224 + x" and y: "b2 = 128 + y" and z: "b3 = 128 + z"
    using assms by (metis is_continuation_def le_Suc_ex not_less)
  have xb: "x < 16" "y < 64" "z < 64" using assms x y z by (auto simp: is_continuation_def)
  have "x \<le> 12 \<or> (x = 13 \<and> y < 32) \<or> 14 \<le> x" using assms x y by auto
  then show ?thesis using xb unfolding x y z valid_cp_def by auto
qed

lemma valid_cp4:
  assumes "is_continuation b2" "is_continuation b3" "is_continuation b4" "b < 245" "\<not> b < 240"
    "\<not> (b = 240 \<and> b2 < 144)" "\<not> (b = 244 \<and> 144 \<le> b2)"
  shows "valid_cp ((b - 240) * 262144 + (b2 - 128) * 4096 + (b3 - 128) * 64 + (b4 - 128))"
proof -
  obtain x y z w where x: "b = 240 + x" and y: "b2 = 128 + y" and z: "b3 = 128 + z" and w: "b4 = 128 + w"
    using assms by (metis is_continuation_def le_Suc_ex not_less)
  have xb: "x < 5" "y < 64" "z < 64" "w < 64" using assms x y z w by (auto simp: is_continuation_def)
  have "x \<le> 3 \<or> (x = 4 \<and> y < 16)" using assms x y by auto
  moreover have "1 \<le> x \<or> 16 \<le> y" using assms x y by auto
  ultimately show ?thesis using xb unfolding x y z w valid_cp_def by auto
qed

lemma valid_REPLACEMENT: "valid_cp REPLACEMENT"
  by (simp add: valid_cp_def REPLACEMENT_def)

lemma valid_ascii: "c < 128 \<Longrightarrow> valid_cp c"
  by (simp add: valid_cp_def)

lemma utf8_decode_single: "\<not> b < 128 \<Longrightarrow> utf8_decode [b] = [REPLACEMENT]"
  by (simp add: utf8_decode.simps(2) [of b "[]"])

lemma utf8_decode_valid_two:
  assumes "\<not> b < 128" "\<not> b < 194" "b < 224" "list_all valid_cp (utf8_decode bs)"
     "\<And>b2 r2. bs = b2 # r2 \<Longrightarrow> list_all valid_cp (utf8_decode r2)"
  shows "list_all valid_cp (utf8_decode (b # bs))"
proof (cases bs)
  case Nil
  with assms(1) show ?thesis by (simp add: utf8_decode_single valid_REPLACEMENT)
next
  case (Cons b2 r2)
  show ?thesis
  proof (cases "is_continuation b2")
    case True
    have "utf8_decode (b # b2 # r2) = ((b - 192) * 64 + (b2 - 128)) # utf8_decode r2"
      using assms(1-3) True by (simp add: utf8_decode.simps(2) [of b "b2 # r2"])
    then show ?thesis using assms(5) [OF Cons] valid_cp2 [OF True assms(3)] Cons by simp
  next
    case False
    have "utf8_decode (b # b2 # r2) = REPLACEMENT # utf8_decode (b2 # r2)"
      using assms(1-3) False by (simp add: utf8_decode.simps(2) [of b "b2 # r2"])
    then show ?thesis using assms(4) Cons by (simp add: valid_REPLACEMENT)
  qed
qed

lemma utf8_decode_valid_three:
  assumes "\<not> b < 224" "b < 240" "list_all valid_cp (utf8_decode bs)"
     "\<And>b2 r2. bs = b2 # r2 \<Longrightarrow> list_all valid_cp (utf8_decode r2)"
     "\<And>b2 b3 r3. bs = b2 # b3 # r3 \<Longrightarrow> list_all valid_cp (utf8_decode r3)"
  shows "list_all valid_cp (utf8_decode (b # bs))"
proof (cases bs)
  case Nil
  with assms(1) show ?thesis by (simp add: utf8_decode_single valid_REPLACEMENT)
next
  case (Cons b2 r2)
  define bad where "bad \<longleftrightarrow> \<not> is_continuation b2 \<or> (b = 224 \<and> b2 < 160) \<or> (b = 237 \<and> 160 \<le> b2)"
  show ?thesis
  proof (cases bad)
    case True
    have "utf8_decode (b # b2 # r2) = REPLACEMENT # utf8_decode (b2 # r2)"
    proof -
      have c: "(\<not> is_continuation b2 \<or> (b = 224 \<and> b2 < 160) \<or> (b = 237 \<and> 160 \<le> b2)) = True"
        using True unfolding bad_def by simp
      show ?thesis using assms(1,2)
        by (simp only: utf8_decode.simps(2) [of b "b2 # r2"] c if_True list.case) simp
    qed
    then show ?thesis using assms(3) Cons by (simp add: valid_REPLACEMENT)
  next
    case False
    then have c2: "is_continuation b2" and n1: "\<not> (b = 224 \<and> b2 < 160)"
      and n2: "\<not> (b = 237 \<and> 160 \<le> b2)" unfolding bad_def by auto
    have e: "utf8_decode (b # b2 # r2) =
        (case r2 of [] \<Rightarrow> [REPLACEMENT]
         | b3 # r3 \<Rightarrow> if is_continuation b3
             then ((b - 224) * 4096 + (b2 - 128) * 64 + (b3 - 128)) # utf8_decode r3
             else REPLACEMENT # utf8_decode r2)"
    proof -
      have c: "(\<not> is_continuation b2 \<or> (b = 224 \<and> b2 < 160) \<or> (b = 237 \<and> 160 \<le> b2)) = False"
        using False unfolding bad_def by simp
      show ?thesis using assms(1,2)
        by (simp only: utf8_decode.simps(2) [of b "b2 # r2"] c if_False list.case) simp
    qed
    show ?thesis
    proof (cases r2)
      case Nil
      with e Cons show ?thesis by (simp add: valid_REPLACEMENT)
    next
      case r2: (Cons b3 r3)
      show ?thesis
      proof (cases "is_continuation b3")
        case True
        have "list_all valid_cp (utf8_decode r3)" using assms(5) Cons r2 by simp
        moreover have "valid_cp ((b - 224) * 4096 + (b2 - 128) * 64 + (b3 - 128))"
          using valid_cp3 [OF c2 True assms(2) assms(1) n2] .
        ultimately show ?thesis using e Cons r2 True by simp
      next
        case False
        have "list_all valid_cp (utf8_decode r2)" using assms(4) Cons by simp
        then show ?thesis using e Cons r2 False by (simp add: valid_REPLACEMENT)
      qed
    qed
  qed
qed

lemma utf8_decode_valid_four:
  assumes "\<not> b < 240" "b < 245" "list_all valid_cp (utf8_decode bs)"
     "\<And>b2 r2. bs = b2 # r2 \<Longrightarrow> list_all valid_cp (utf8_decode r2)"
     "\<And>b2 b3 r3. bs = b2 # b3 # r3 \<Longrightarrow> list_all valid_cp (utf8_decode r3)"
     "\<And>b2 b3 b4 r4. bs = b2 # b3 # b4 # r4 \<Longrightarrow> list_all valid_cp (utf8_decode r4)"
  shows "list_all valid_cp (utf8_decode (b # bs))"
proof (cases bs)
  case Nil
  with assms(1) show ?thesis by (simp add: utf8_decode_single valid_REPLACEMENT)
next
  case (Cons b2 r2)
  define bad where "bad \<longleftrightarrow> \<not> is_continuation b2 \<or> (b = 240 \<and> b2 < 144) \<or> (b = 244 \<and> 144 \<le> b2)"
  show ?thesis
  proof (cases bad)
    case True
    have "utf8_decode (b # b2 # r2) = REPLACEMENT # utf8_decode (b2 # r2)"
    proof -
      have c: "(\<not> is_continuation b2 \<or> (b = 240 \<and> b2 < 144) \<or> (b = 244 \<and> 144 \<le> b2)) = True"
        using True unfolding bad_def by simp
      show ?thesis using assms(1,2)
        by (simp only: utf8_decode.simps(2) [of b "b2 # r2"] c if_True list.case) simp
    qed
    then show ?thesis using assms(3) Cons by (simp add: valid_REPLACEMENT)
  next
    case False
    then have c2: "is_continuation b2" and n1: "\<not> (b = 240 \<and> b2 < 144)"
      and n2: "\<not> (b = 244 \<and> 144 \<le> b2)" unfolding bad_def by auto
    have e: "utf8_decode (b # b2 # r2) =
        (case r2 of [] \<Rightarrow> [REPLACEMENT]
         | b3 # r3 \<Rightarrow>
             if \<not> is_continuation b3 then REPLACEMENT # utf8_decode r2
             else (case r3 of [] \<Rightarrow> [REPLACEMENT]
                   | b4 # r4 \<Rightarrow>
                       if is_continuation b4
                       then ((b - 240) * 262144 + (b2 - 128) * 4096
                              + (b3 - 128) * 64 + (b4 - 128)) # utf8_decode r4
                       else REPLACEMENT # utf8_decode r3))"
    proof -
      have c: "(\<not> is_continuation b2 \<or> (b = 240 \<and> b2 < 144) \<or> (b = 244 \<and> 144 \<le> b2)) = False"
        using False unfolding bad_def by simp
      show ?thesis using assms(1,2)
        by (simp only: utf8_decode.simps(2) [of b "b2 # r2"] c if_False list.case) simp
    qed
    show ?thesis
    proof (cases r2)
      case Nil
      with e Cons show ?thesis by (simp add: valid_REPLACEMENT)
    next
      case r2: (Cons b3 r3)
      show ?thesis
      proof (cases "is_continuation b3")
        case False
        have "list_all valid_cp (utf8_decode r2)" using assms(4) Cons by simp
        then show ?thesis using e Cons r2 False by (simp add: valid_REPLACEMENT)
      next
        case c3: True
        show ?thesis
        proof (cases r3)
          case Nil
          with e Cons r2 c3 show ?thesis by (simp add: valid_REPLACEMENT)
        next
          case r3: (Cons b4 r4)
          show ?thesis
          proof (cases "is_continuation b4")
            case True
            have "list_all valid_cp (utf8_decode r4)" using assms(6) Cons r2 r3 by simp
            moreover have "valid_cp ((b - 240) * 262144 + (b2 - 128) * 4096
                              + (b3 - 128) * 64 + (b4 - 128))"
              using valid_cp4 [OF c2 c3 True assms(2) assms(1) n1 n2] .
            ultimately show ?thesis using e Cons r2 r3 c3 True by simp
          next
            case False
            have "list_all valid_cp (utf8_decode r3)" using assms(5) Cons r2 by simp
            then show ?thesis using e Cons r2 r3 c3 False by (simp add: valid_REPLACEMENT)
          qed
        qed
      qed
    qed
  qed
qed

lemma utf8_decode_valid: "list_all valid_cp (utf8_decode bs)"
proof (induction bs rule: length_induct)
  case (1 bs)
  have IH: "\<And>ys. length ys < length bs \<Longrightarrow> list_all valid_cp (utf8_decode ys)"
    using 1 by blast
  show ?case
  proof (cases bs)
    case Nil
    then show ?thesis by simp
  next
    case (Cons b r)
    have t: "list_all valid_cp (utf8_decode r)" using IH Cons by simp
    have t2: "\<And>b2 r2. r = b2 # r2 \<Longrightarrow> list_all valid_cp (utf8_decode r2)"
      using IH Cons by simp
    have t3: "\<And>b2 b3 r3. r = b2 # b3 # r3 \<Longrightarrow> list_all valid_cp (utf8_decode r3)"
      using IH Cons by simp
    have t4: "\<And>b2 b3 b4 r4. r = b2 # b3 # b4 # r4 \<Longrightarrow> list_all valid_cp (utf8_decode r4)"
      using IH Cons by simp
    consider "b < 128" | "\<not> b < 128" "b < 194" | "\<not> b < 194" "b < 224"
      | "\<not> b < 224" "b < 240" | "\<not> b < 240" "b < 245" | "\<not> b < 245"
      by linarith
    then have "list_all valid_cp (utf8_decode (b # r))"
    proof cases
      case 1
      then show ?thesis using t by (simp add: utf8_decode.simps(2) [of b r] valid_ascii)
    next
      case 2
      then show ?thesis using t by (simp add: utf8_decode.simps(2) [of b r] valid_REPLACEMENT)
    next
      case 3
      then show ?thesis using utf8_decode_valid_two [of b r] t t2 by simp
    next
      case 4
      then show ?thesis using utf8_decode_valid_three [of b r] t t2 t3 by simp
    next
      case 5
      then show ?thesis using utf8_decode_valid_four [of b r] t t2 t3 t4 by simp
    next
      case 6
      then show ?thesis using t by (simp add: utf8_decode.simps(2) [of b r] valid_REPLACEMENT)
    qed
    then show ?thesis using Cons by simp
  qed
qed

lemma split_not_Nil: "split sep s \<noteq> []"
  by (induction s) (simp_all add: Let_def)

lemma set_split_subset: "f \<in> set (split sep s) \<Longrightarrow> set f \<subseteq> set s"
proof (induction s arbitrary: f)
  case Nil
  then show ?case by simp
next
  case (Cons c cs)
  obtain g gs where r: "split sep cs = g # gs"
    using split_not_Nil [of sep cs] by (cases "split sep cs") auto
  show ?case
  proof (cases "c = sep")
    case True
    with Cons r show ?thesis by (auto simp: Let_def)
  next
    case False
    with Cons.prems r have "f = c # g \<or> f \<in> set gs" by (auto simp: Let_def)
    then show ?thesis
    proof
      assume "f = c # g"
      moreover have "set g \<subseteq> set cs" using Cons.IH [of g] r by simp
      ultimately show ?thesis by auto
    next
      assume "f \<in> set gs"
      then have "set f \<subseteq> set cs" using Cons.IH [of f] r by simp
      then show ?thesis by auto
    qed
  qed
qed

lemma valid_subset: "list_all valid_cp s \<Longrightarrow> set t \<subseteq> set s \<Longrightarrow> list_all valid_cp t"
  by (auto simp: list_all_iff)

lemma unquote_bits_valid: "list_all valid_cp s \<Longrightarrow> list_all valid_cp (unquote_bits s)"
proof (induction s rule: unquote_bits.induct)
  case (1 s)
  show ?case
  proof (cases "s = []")
    case True
    then show ?thesis by (simp add: unquote_bits.simps [of "[]"])
  next
    case ne: False
    show ?thesis
    proof (cases "hd s < 128")
      case True
      have "list_all valid_cp (dropWhile (\<lambda>c. c < 128) s)"
        using "1.prems" by (rule valid_subset) (auto dest: set_dropWhileD)
      then have "list_all valid_cp (unquote_bits (dropWhile (\<lambda>c. c < 128) s))"
        using "1.IH"(1) ne True by simp
      then show ?thesis using ne True
        by (simp add: unquote_bits.simps [of s] utf8_decode_valid)
    next
      case False
      have "list_all valid_cp (dropWhile (\<lambda>c. \<not> c < 128) s)"
        using "1.prems" by (rule valid_subset) (auto dest: set_dropWhileD)
      then have a: "list_all valid_cp (unquote_bits (dropWhile (\<lambda>c. \<not> c < 128) s))"
        using "1.IH"(2) ne False by simp
      have b: "list_all valid_cp (takeWhile (\<lambda>c. \<not> c < 128) s)"
        using "1.prems" by (rule valid_subset) (auto dest: set_takeWhileD)
      show ?thesis using ne False a b by (simp add: unquote_bits.simps [of s])
    qed
  qed
qed

lemma unquote_plus_valid: "list_all valid_cp s \<Longrightarrow> list_all valid_cp (unquote_plus s)"
proof -
  assume v: "list_all valid_cp s"
  have "list_all valid_cp (map (\<lambda>c. if c = 43 then 32 else c) s)"
    using v by (auto simp: list_all_iff valid_cp_def)
  then show ?thesis
    by (simp add: unquote_plus_def unquote_def unquote_bits_valid)
qed

lemma parse_field_valid:
  assumes "list_all valid_cp f" and "nv \<in> set (parse_field f)"
  shows "list_all valid_cp (snd nv)"
proof -
  have "list_all valid_cp (drop 1 (dropWhile (\<lambda>c. c \<noteq> 61) f))"
    using assms(1) by (rule valid_subset) (auto dest: in_set_dropD set_dropWhileD)
  then show ?thesis using assms(2)
    by (auto simp: parse_field_def partition_at_def Let_def unquote_plus_valid split: if_splits)
qed

lemma parse_qsl_valid:
  assumes "list_all valid_cp qs" and "nv \<in> set (parse_qsl qs)"
  shows "list_all valid_cp (snd nv)"
proof -
  from assms(2) obtain f where f: "f \<in> set (split 38 qs)" and nv: "nv \<in> set (parse_field f)"
    by (auto simp: parse_qsl_def split: if_splits)
  have "list_all valid_cp f" using assms(1) set_split_subset [OF f] by (rule valid_subset)
  then show ?thesis using nv by (rule parse_field_valid)
qed

lemma add_pair_all:
  assumes "\<And>k vs. m k = Some vs \<Longrightarrow> list_all P vs" and "P (snd nv)"
    and "add_pair m nv k = Some vs"
  shows "list_all P vs"
  using assms by (auto simp: add_pair_def split: option.splits if_splits)

lemma foldl_add_pair_all:
  assumes "\<And>k vs. m k = Some vs \<Longrightarrow> list_all P vs" and "\<And>nv. nv \<in> set pairs \<Longrightarrow> P (snd nv)"
    and "foldl add_pair m pairs k = Some vs"
  shows "list_all P vs"
  using assms
proof (induction pairs arbitrary: m)
  case Nil
  then show ?case by simp
next
  case (Cons nv pairs)
  show ?case
  proof (rule Cons.IH [of "add_pair m nv"])
    show "\<And>k vs. add_pair m nv k = Some vs \<Longrightarrow> list_all P vs"
      using add_pair_all [of m P nv] Cons.prems(1,2) by simp
    show "\<And>x. x \<in> set pairs \<Longrightarrow> P (snd x)" using Cons.prems(2) by simp
    show "foldl add_pair (add_pair m nv) pairs k = Some vs" using Cons.prems(3) by simp
  qed
qed

lemma parse_qs_valid:
  assumes "list_all valid_cp qs" and "parse_qs qs k = Some vs"
  shows "list_all (list_all valid_cp) vs"
proof (rule foldl_add_pair_all [where m = Map.empty and pairs = "parse_qsl qs" and k = k])
  show "\<And>k vs. Map.empty k = Some vs \<Longrightarrow> list_all (list_all valid_cp) vs" by simp
  show "\<And>nv. nv \<in> set (parse_qsl qs) \<Longrightarrow> list_all valid_cp (snd nv)"
    using assms(1) by (rule parse_qsl_valid)
  show "foldl add_pair Map.empty (parse_qsl qs) k = Some vs"
    using assms(2) by (simp add: parse_qs_def)
qed

lemma of_char_less_256: "(of_char c :: nat) < 256"
proof -
  have "(of_char c :: nat) mod 256 = of_char c" by simp
  then show ?thesis by (metis mod_less_divisor zero_less_numeral)
qed

lemma str_valid: "list_all valid_cp (str s)"
proof -
  have "valid_cp (of_char c)" for c
    using of_char_less_256 [of c] unfolding valid_cp_def by linarith
  then show ?thesis by (simp add: str_def list_all_iff)
qed

lemma encode_char_valid: "valid_cp c \<Longrightarrow> \<exists>bs. encode_char c = Inr bs"
  by (simp add: encode_char_def valid_cp_def)

lemma encode_valid: "list_all valid_cp s \<Longrightarrow> \<exists>bs. encode s = Inr bs"
proof (induction s)
  case Nil
  then show ?case by simp
next
  case (Cons c cs)
  then obtain bs rest where "encode_char c = Inr bs" "encode cs = Inr rest"
    using encode_char_valid [of c] by auto
  then show ?case by simp
qed

lemma encode_append:
  "encode (a @ b) =
     (case encode a of
        Inl e \<Rightarrow> Inl e
      | Inr x \<Rightarrow> (case encode b of Inl e \<Rightarrow> Inl e | Inr y \<Rightarrow> Inr (x @ y)))"
  by (induction a) (simp_all split: sum.split)

lemma encode_page_prefix:
  "encode (str ''\<newline>                <html>\<newline>                    <body>\<newline>                        <h1>Authorization failed</h1>\<newline>                        <p>Error: '') =
     Inr (str ''\<newline>                <html>\<newline>                    <body>\<newline>                        <h1>Authorization failed</h1>\<newline>                        <p>Error: '')"
  by code_simp

lemma encode_page_suffix:
  "encode (str ''</p>\<newline>                    </body>\<newline>                </html>\<newline>            '') =
     Inr (str ''</p>\<newline>                    </body>\<newline>                </html>\<newline>            '')"
  by code_simp

lemma encode_error_page:
  assumes "encode error = Inr echo"
  shows "encode (error_page error) =
           Inr (str ''\<newline>                <html>\<newline>                    <body>\<newline>                        <h1>Authorization failed</h1>\<newline>                        <p>Error: ''
                @ echo
                @ str ''</p>\<newline>                    </body>\<newline>                </html>\<newline>            '')"
  using assms
  by (simp add: error_page_def encode_append encode_page_prefix encode_page_suffix)

lemma do_GET_error_branch:
  assumes "urlsplit ok t = Inr parsed"
    and "parse_qs (str (query parsed)) (str ''code'') = None"
  shows "\<exists>echo.
           encode (case parse_qs (str (query parsed)) (str ''error'') of
                     Some errors \<Rightarrow> hd errors
                   | None \<Rightarrow> str ''Unknown error'') = Inr echo
           \<and> do_GET ok t a =
               Inr (a, \<lparr>status = 400, headers = [(''Content-type'', ''text/html'')],
                        body = str ''\<newline>                <html>\<newline>                    <body>\<newline>                        <h1>Authorization failed</h1>\<newline>                        <p>Error: ''
                               @ echo
                               @ str ''</p>\<newline>                    </body>\<newline>                </html>\<newline>            ''\<rparr>)"
proof (cases "parse_qs (str (query parsed)) (str ''error'')")
  case None
  obtain echo where p: "encode (str ''Unknown error'') = Inr echo"
    using encode_valid [OF str_valid] by blast
  show ?thesis
    using assms None p encode_error_page [OF p]
    by (simp add: do_GET_def first_def Let_def)
next
  case (Some errors)
  have "errors \<noteq> []" using Some by (rule parse_qs_nonempty)
  then obtain e es where es: "errors = e # es" by (cases errors) auto
  have "list_all (list_all valid_cp) errors"
    using str_valid Some by (rule parse_qs_valid)
  then have "list_all valid_cp e" using es by simp
  then obtain echo where p: "encode e = Inr echo"
    using encode_valid by blast
  show ?thesis
    using assms Some es p encode_error_page [OF p]
    by (simp add: do_GET_def first_def Let_def)
qed

lemma urlsplit_raises_bracket:
  assumes "urlsplit ok target = Inl e"
  shows "CHR ''['' \<in> set target \<or> CHR '']'' \<in> set target"
proof -
  define url2 where
    "url2 = filter (\<lambda>c. c \<noteq> CHR 0x09 \<and> c \<noteq> CHR 0x0D \<and> c \<noteq> CHR 0x0A)
              (dropWhile (\<lambda>c. (of_char c :: nat) \<le> 32) target)"
  define pre where "pre = takeWhile (\<lambda>c. c \<noteq> CHR '':'') url2"
  define has_scheme where
    "has_scheme = (CHR '':'' \<in> set url2 \<and> pre \<noteq> [] \<and> is_ascii_alpha (hd url2)
                     \<and> list_all is_scheme_char pre)"
  define url3 where "url3 = (if has_scheme then drop (length pre + 1) url2 else url2)"
  define netloc1 where
    "netloc1 = (if take 2 url3 = ''//''
                then takeWhile (\<lambda>c. \<not> is_netloc_delim c) (drop 2 url3) else [])"
  have "set url2 \<subseteq> set target"
    unfolding url2_def by (auto dest!: set_dropWhileD)
  then have "set url3 \<subseteq> set target"
    unfolding url3_def by (auto dest!: in_set_dropD)
  then have sub: "set netloc1 \<subseteq> set target"
    unfolding netloc1_def by (auto dest!: set_takeWhileD in_set_dropD)
  have "\<exists>r. urlsplit ok target =
          (if (CHR ''['' \<in> set netloc1 \<and> CHR '']'' \<notin> set netloc1)
              \<or> (CHR '']'' \<in> set netloc1 \<and> CHR ''['' \<notin> set netloc1)
           then Inl (PyExc ''ValueError'' (str ''Invalid IPv6 URL''))
           else if CHR ''['' \<in> set netloc1 \<and> CHR '']'' \<in> set netloc1
                   \<and> \<not> ok (fst (partition_at (CHR '']'')
                                  (snd (partition_at (CHR ''['') netloc1))))
           then Inl (PyExc ''ValueError'' (str ''invalid bracketed host''))
           else Inr r)"
    unfolding urlsplit_def Let_def split_beta netloc1_def url3_def has_scheme_def pre_def
      url2_def
    by (rule exI) (rule refl)
  then have "CHR ''['' \<in> set netloc1 \<or> CHR '']'' \<in> set netloc1"
    using assms by (auto split: if_splits)
  then show ?thesis using sub by auto
qed

lemma urlsplit_callback_error:
  "urlsplit lenient ''/callback?error=access_denied'' =
     Inr \<lparr>scheme = [], netloc = [], url = ''/callback'', query = ''error=access_denied'',
          fragment = []\<rparr>"
  by code_simp

lemma parse_qs_error_code: "parse_qs (str ''error=access_denied'') (str ''code'') = None"
  by code_simp

lemma parse_qs_error_error:
  "parse_qs (str ''error=access_denied'') (str ''error'') = Some [str ''access_denied'']"
  by code_simp

lemma encode_access_denied: "encode (str ''access_denied'') = Inr (str ''access_denied'')"
  by code_simp

lemma encode_unknown_error: "encode (str ''Unknown error'') = Inr (str ''Unknown error'')"
  by code_simp

lemma page_access_denied:
  "str ''\<newline>                <html>\<newline>                    <body>\<newline>                        <h1>Authorization failed</h1>\<newline>                        <p>Error: ''
   @ str ''access_denied''
   @ str ''</p>\<newline>                    </body>\<newline>                </html>\<newline>            '' =
   str ''\<newline>                <html>\<newline>                    <body>\<newline>                        <h1>Authorization failed</h1>\<newline>                        <p>Error: access_denied</p>\<newline>                    </body>\<newline>                </html>\<newline>            ''"
  by (simp add: str_def)

lemma page_unknown_error:
  "str ''\<newline>                <html>\<newline>                    <body>\<newline>                        <h1>Authorization failed</h1>\<newline>                        <p>Error: ''
   @ str ''Unknown error''
   @ str ''</p>\<newline>                    </body>\<newline>                </html>\<newline>            '' =
   str ''\<newline>                <html>\<newline>                    <body>\<newline>                        <h1>Authorization failed</h1>\<newline>                        <p>Error: Unknown error</p>\<newline>                    </body>\<newline>                </html>\<newline>            ''"
  by (simp add: str_def)

lemma urlsplit_bare:
  "urlsplit lenient ''/callback'' =
     Inr \<lparr>scheme = [], netloc = [], url = ''/callback'', query = [], fragment = []\<rparr>"
  by code_simp

lemma parse_qs_empty: "parse_qs (str []) name = None"
  by (simp add: parse_qs_def parse_qsl_def str_def)

lemma urlsplit_open_bracket:
  "urlsplit ok ''http://['' = Inl (PyExc ''ValueError'' (str ''Invalid IPv6 URL''))"
  by (simp add: urlsplit_def Let_def is_ascii_alpha_def is_scheme_char_def lower_def
      is_netloc_delim_def partition_at_def)

text \<open>
  C5, as stated, fails for a request with neither parameter whose target \<^verbatim>\<open>urlparse\<close>
  refuses: \<^verbatim>\<open>GET http://[ HTTP/1.1\<close> reaches \<^verbatim>\<open>do_GET\<close>, which raises \<^verbatim>\<open>ValueError\<close> before
  anything is sent. There is no 400 response and no page.
\<close>

theorem do_GET_raises_on_open_bracket:
  "do_GET lenient ''http://['' None = Inl (PyExc ''ValueError'' (str ''Invalid IPv6 URL''))
   \<and> handle_one_request lenient (Request ''GET'' ''http://['') None =
       (None, Raised (PyExc ''ValueError'' (str ''Invalid IPv6 URL'')))"
  by (simp add: handle_one_request_def do_GET_def urlsplit_open_bracket)

text \<open>
  C5, amended. For every request target that \<^verbatim>\<open>urlparse\<close> accepts and whose query holds no
  \<^verbatim>\<open>code\<close> parameter, \<^verbatim>\<open>do_GET\<close> answers 400 and leaves the global \<^verbatim>\<open>auth_code\<close> as it was.
  The body is the page below with, between \<^verbatim>\<open><p>Error: \<close> and \<^verbatim>\<open></p>\<close>, the UTF-8 bytes of
  the first value of the \<^verbatim>\<open>error\<close> parameter, or of \<^verbatim>\<open>Unknown error\<close> when there is no such
  parameter; that encoding never fails. For a target that \<^verbatim>\<open>urlparse\<close> refuses, \<^verbatim>\<open>do_GET\<close>
  raises the same exception and answers nothing. Every target without a square bracket
  is accepted.
\<close>

theorem do_GET_without_code:
  "(urlsplit bracketed_host_ok target = Inr parsed_path
    \<and> parse_qs (str (query parsed_path)) (str ''code'') = None \<longrightarrow>
      (\<exists>echo.
         encode (case parse_qs (str (query parsed_path)) (str ''error'') of
                   Some errors \<Rightarrow> hd errors
                 | None \<Rightarrow> str ''Unknown error'') = Inr echo
         \<and> do_GET bracketed_host_ok target auth_code =
             Inr (auth_code,
                  \<lparr>status = 400, headers = [(''Content-type'', ''text/html'')],
                   body = str ''\<newline>                <html>\<newline>                    <body>\<newline>                        <h1>Authorization failed</h1>\<newline>                        <p>Error: ''
                          @ echo
                          @ str ''</p>\<newline>                    </body>\<newline>                </html>\<newline>            ''\<rparr>)))
   \<and> (urlsplit bracketed_host_ok target = Inl e \<longrightarrow>
        do_GET bracketed_host_ok target auth_code = Inl e)
   \<and> (CHR ''['' \<notin> set target \<and> CHR '']'' \<notin> set target \<longrightarrow>
        (\<exists>p. urlsplit bracketed_host_ok target = Inr p))"
proof -
  have "urlsplit bracketed_host_ok target = Inl e \<longrightarrow>
        do_GET bracketed_host_ok target auth_code = Inl e"
    by (simp add: do_GET_def)
  moreover have "CHR ''['' \<notin> set target \<and> CHR '']'' \<notin> set target \<longrightarrow>
        (\<exists>p. urlsplit bracketed_host_ok target = Inr p)"
    using urlsplit_raises_bracket [of bracketed_host_ok target]
    by (cases "urlsplit bracketed_host_ok target") auto
  moreover note do_GET_error_branch [of bracketed_host_ok target parsed_path auth_code]
  ultimately show ?thesis by blast
qed

theorem do_GET_without_code_witness:
  "do_GET lenient ''/callback?error=access_denied'' None =
     Inr (None, \<lparr>status = 400, headers = [(''Content-type'', ''text/html'')],
                 body = str ''\<newline>                <html>\<newline>                    <body>\<newline>                        <h1>Authorization failed</h1>\<newline>                        <p>Error: access_denied</p>\<newline>                    </body>\<newline>                </html>\<newline>            ''\<rparr>)
   \<and> do_GET lenient ''/callback'' None =
     Inr (None, \<lparr>status = 400, headers = [(''Content-type'', ''text/html'')],
                 body = str ''\<newline>                <html>\<newline>                    <body>\<newline>                        <h1>Authorization failed</h1>\<newline>                        <p>Error: Unknown error</p>\<newline>                    </body>\<newline>                </html>\<newline>            ''\<rparr>)
   \<and> do_GET lenient ''http://['' None = Inl (PyExc ''ValueError'' (str ''Invalid IPv6 URL''))"
proof -
  have b: "CHR ''['' \<notin> set ''/callback'' \<and> CHR '']'' \<notin> set ''/callback''"
    by simp
  show ?thesis
    using do_GET_without_code [of lenient "''/callback?error=access_denied''"
        "\<lparr>scheme = [], netloc = [], url = ''/callback'', query = ''error=access_denied'',
          fragment = []\<rparr>" None "PyExc ''ValueError'' (str ''Invalid IPv6 URL'')"]
      do_GET_without_code [of lenient "''/callback''"
        "\<lparr>scheme = [], netloc = [], url = ''/callback'', query = [], fragment = []\<rparr>"
        None "PyExc ''ValueError'' (str ''Invalid IPv6 URL'')"]
      do_GET_without_code [of lenient "''http://[''"
        "\<lparr>scheme = [], netloc = [], url = [], query = [], fragment = []\<rparr>" None
        "PyExc ''ValueError'' (str ''Invalid IPv6 URL'')"]
      b
    by (simp add: urlsplit_callback_error urlsplit_bare urlsplit_open_bracket
        parse_qs_error_code parse_qs_error_error parse_qs_empty encode_access_denied encode_unknown_error page_access_denied
        page_unknown_error)
qed

lemma dropWhile_upto_sep: "sep \<notin> set name \<Longrightarrow> dropWhile (\<lambda>c. c \<noteq> sep) (name @ [sep]) = [sep]"
  by (induction name) auto

lemma parse_field_blank: "61 \<notin> set name \<Longrightarrow> parse_field (name @ [61]) = []"
  by (simp add: parse_field_def partition_at_def dropWhile_upto_sep)

lemma split_without_sep: "sep \<notin> set x \<Longrightarrow> split sep x = [x]"
  by (induction x) (auto simp: Let_def)

lemma split_append_sep: "sep \<notin> set x \<Longrightarrow> split sep (x @ sep # r) = x # split sep r"
  by (induction x) (auto simp: Let_def)

lemma split_join:
  assumes "fs \<noteq> []" and "\<forall>f\<in>set fs. sep \<notin> set f"
  shows "split sep (join [sep] fs) = fs"
  using assms
proof (induction fs)
  case Nil
  then show ?case by simp
next
  case (Cons x xs)
  show ?case
  proof (cases xs)
    case Nil
    then show ?thesis using Cons.prems by (simp add: split_without_sep)
  next
    case (Cons y ys)
    then have "split sep (join [sep] xs) = xs" using Cons.IH Cons.prems by simp
    then show ?thesis using Cons Cons.prems by (simp add: split_append_sep)
  qed
qed

lemma parse_qsl_join:
  assumes "\<forall>f\<in>set fs. 38 \<notin> set f"
  shows "parse_qsl (join [38] fs) = concat (map parse_field fs)"
proof (cases "fs = []")
  case True
  then show ?thesis by (simp add: parse_qsl_def)
next
  case False
  then have s: "split 38 (join [38] fs) = fs" using assms by (rule split_join)
  show ?thesis
  proof (cases "join [38] fs = []")
    case True
    then have "fs = [[]]" using s by simp
    then show ?thesis by (simp add: parse_qsl_def parse_field_def)
  next
    case False
    then show ?thesis by (simp add: parse_qsl_def s)
  qed
qed

lemma parse_qs_blank_field:
  assumes "\<forall>f\<in>set (before @ after). 38 \<notin> set f" and "38 \<notin> set name" and "61 \<notin> set name"
  shows "parse_qs (join (str ''&'') (before @ [name @ str ''=''] @ after)) =
         parse_qs (join (str ''&'') (before @ after))"
proof -
  have amp: "str ''&'' = [38]" and eq: "str ''='' = [61]"
    by (simp_all add: str_def)
  have "\<forall>f\<in>set (before @ [name @ [61]] @ after). 38 \<notin> set f"
    using assms(1,2) by auto
  then have "parse_qsl (join [38] (before @ [name @ [61]] @ after)) =
             concat (map parse_field (before @ [name @ [61]] @ after))"
    by (rule parse_qsl_join)
  also have "\<dots> = concat (map parse_field (before @ after))"
    using assms(3) by (simp add: parse_field_blank)
  also have "\<dots> = parse_qsl (join [38] (before @ after))"
    using assms(1) by (rule parse_qsl_join [symmetric])
  finally show ?thesis by (simp add: parse_qs_def amp eq)
qed

lemma do_GET_same_parse:
  assumes "urlsplit ok t1 = Inr p1" and "urlsplit ok t2 = Inr p2"
    and "parse_qs (str (query p1)) = parse_qs (str (query p2))"
  shows "do_GET ok t1 a = do_GET ok t2 a"
  using assms by (simp add: do_GET_def)

lemma urlsplit_blank_error:
  "urlsplit lenient ''/callback?code=&error=access_denied'' =
     Inr \<lparr>scheme = [], netloc = [], url = ''/callback'',
          query = ''code=&error=access_denied'', fragment = []\<rparr>"
  by code_simp

lemma parse_qs_blank_error_code:
  "parse_qs (str ''code=&error=access_denied'') (str ''code'') = None"
  by code_simp

lemma parse_qs_blank_error_error:
  "parse_qs (str ''code=&error=access_denied'') (str ''error'') = Some [str ''access_denied'']"
  by code_simp

lemma urlsplit_blank_code:
  "urlsplit lenient ''/callback?code=&code=XYZ123'' =
     Inr \<lparr>scheme = [], netloc = [], url = ''/callback'', query = ''code=&code=XYZ123'',
          fragment = []\<rparr>"
  by code_simp

lemma parse_qs_blank_code_code:
  "parse_qs (str ''code=&code=XYZ123'') (str ''code'') = Some [str ''XYZ123'']"
  by code_simp

lemma urlsplit_blank_state:
  "urlsplit lenient ''/callback?code=&state=abc'' =
     Inr \<lparr>scheme = [], netloc = [], url = ''/callback'', query = ''code=&state=abc'',
          fragment = []\<rparr>"
  by code_simp

lemma urlsplit_state:
  "urlsplit lenient ''/callback?state=abc'' =
     Inr \<lparr>scheme = [], netloc = [], url = ''/callback'', query = ''state=abc'',
          fragment = []\<rparr>"
  by code_simp

lemma parse_qs_state_code: "parse_qs (str ''state=abc'') (str ''code'') = None"
  by code_simp

lemma parse_qs_state_error: "parse_qs (str ''state=abc'') (str ''error'') = None"
  by code_simp

lemma urlsplit_blank:
  "urlsplit lenient ''/callback?code='' =
     Inr \<lparr>scheme = [], netloc = [], url = ''/callback'', query = ''code='', fragment = []\<rparr>"
  by code_simp

text \<open>
  C10, as stated, fails. The query \<^verbatim>\<open>code=&error=access_denied\<close> has a \<^verbatim>\<open>code\<close> parameter
  with an empty value, and the page echoes \<^verbatim>\<open>access_denied\<close>, not \<^verbatim>\<open>Unknown error\<close>. The
  query \<^verbatim>\<open>code=&code=XYZ123\<close> has one too, and the request is answered 200 with the code
  \<^verbatim>\<open>XYZ123\<close> captured.
\<close>

theorem do_GET_blank_code_not_unknown_error:
  "do_GET lenient ''/callback?code=&error=access_denied'' None =
     Inr (None, \<lparr>status = 400, headers = [(''Content-type'', ''text/html'')],
                 body = str ''\<newline>                <html>\<newline>                    <body>\<newline>                        <h1>Authorization failed</h1>\<newline>                        <p>Error: access_denied</p>\<newline>                    </body>\<newline>                </html>\<newline>            ''\<rparr>)
   \<and> do_GET lenient ''/callback?code=&code=XYZ123'' None =
     Inr (Some (str ''XYZ123''),
          \<lparr>status = 200, headers = [(''Content-type'', ''text/html'')], body = success_page\<rparr>)"
  using do_GET_error_branch [OF urlsplit_blank_error, of None]
    do_GET_code_branch [OF urlsplit_blank_code, of "[str ''XYZ123'']" None]
  by (simp add: parse_qs_blank_error_code parse_qs_blank_error_error parse_qs_blank_code_code
      encode_access_denied page_access_denied)

text \<open>
  C10, amended. A field with an empty value is dropped by the query parser, whatever its
  name and wherever it stands in the query. So a request is answered by \<^verbatim>\<open>do_GET\<close> exactly
  as the request without that field is. When what is left of the query holds no \<^verbatim>\<open>code\<close>
  parameter, the answer is 400 with the first value of the \<^verbatim>\<open>error\<close> parameter in the page
  and the global \<^verbatim>\<open>auth_code\<close> as it was; when it holds no \<^verbatim>\<open>error\<close> parameter either, the
  page says \<^verbatim>\<open>Unknown error\<close>. The fields are the pieces of the query between \<^verbatim>\<open>&\<close>.
\<close>

theorem do_GET_blank_field_dropped:
  assumes "urlsplit bracketed_host_ok target = Inr parsed_path"
    and "urlsplit bracketed_host_ok target' = Inr parsed_path'"
    and "str (query parsed_path) = join (str ''&'') (before @ [name @ str ''=''] @ after)"
    and "str (query parsed_path') = join (str ''&'') (before @ after)"
    and "\<forall>f\<in>set (before @ after). 38 \<notin> set f"
    and "38 \<notin> set name" and "61 \<notin> set name"
  shows "do_GET bracketed_host_ok target auth_code = do_GET bracketed_host_ok target' auth_code
         \<and> (parse_qs (str (query parsed_path')) (str ''code'') = None \<longrightarrow>
              (\<exists>echo.
                 encode (case parse_qs (str (query parsed_path')) (str ''error'') of
                           Some errors \<Rightarrow> hd errors
                         | None \<Rightarrow> str ''Unknown error'') = Inr echo
                 \<and> do_GET bracketed_host_ok target auth_code =
                     Inr (auth_code,
                          \<lparr>status = 400, headers = [(''Content-type'', ''text/html'')],
                           body = str ''\<newline>                <html>\<newline>                    <body>\<newline>                        <h1>Authorization failed</h1>\<newline>                        <p>Error: ''
                                  @ echo
                                  @ str ''</p>\<newline>                    </body>\<newline>                </html>\<newline>            ''\<rparr>)))
         \<and> (parse_qs (str (query parsed_path')) (str ''code'') = None
            \<and> parse_qs (str (query parsed_path')) (str ''error'') = None \<longrightarrow>
              do_GET bracketed_host_ok target auth_code =
                Inr (auth_code,
                     \<lparr>status = 400, headers = [(''Content-type'', ''text/html'')],
                      body = str ''\<newline>                <html>\<newline>                    <body>\<newline>                        <h1>Authorization failed</h1>\<newline>                        <p>Error: Unknown error</p>\<newline>                    </body>\<newline>                </html>\<newline>            ''\<rparr>))"
proof -
  have same: "parse_qs (str (query parsed_path)) = parse_qs (str (query parsed_path'))"
    unfolding assms(3,4) using assms(5-7) by (rule parse_qs_blank_field)
  have eq: "do_GET bracketed_host_ok target auth_code =
            do_GET bracketed_host_ok target' auth_code"
    using assms(1,2) same by (rule do_GET_same_parse)
  have echo: "parse_qs (str (query parsed_path')) (str ''code'') = None \<Longrightarrow>
      \<exists>echo.
         encode (case parse_qs (str (query parsed_path')) (str ''error'') of
                   Some errors \<Rightarrow> hd errors
                 | None \<Rightarrow> str ''Unknown error'') = Inr echo
         \<and> do_GET bracketed_host_ok target auth_code =
             Inr (auth_code,
                  \<lparr>status = 400, headers = [(''Content-type'', ''text/html'')],
                   body = str ''\<newline>                <html>\<newline>                    <body>\<newline>                        <h1>Authorization failed</h1>\<newline>                        <p>Error: ''
                          @ echo
                          @ str ''</p>\<newline>                    </body>\<newline>                </html>\<newline>            ''\<rparr>)"
    using do_GET_error_branch [OF assms(2), of auth_code] eq by simp
  have unknown: "parse_qs (str (query parsed_path')) (str ''code'') = None
      \<and> parse_qs (str (query parsed_path')) (str ''error'') = None \<Longrightarrow>
      do_GET bracketed_host_ok target auth_code =
        Inr (auth_code,
             \<lparr>status = 400, headers = [(''Content-type'', ''text/html'')],
              body = str ''\<newline>                <html>\<newline>                    <body>\<newline>                        <h1>Authorization failed</h1>\<newline>                        <p>Error: Unknown error</p>\<newline>                    </body>\<newline>                </html>\<newline>            ''\<rparr>)"
    using do_GET_error_branch [OF assms(2), of auth_code] eq
    by (auto simp: encode_unknown_error page_unknown_error)
  show ?thesis using eq echo unknown by blast
qed

theorem do_GET_blank_field_dropped_witness:
  "do_GET lenient ''/callback?code=&state=abc'' None = do_GET lenient ''/callback?state=abc'' None
   \<and> do_GET lenient ''/callback?code=&state=abc'' None =
       Inr (None, \<lparr>status = 400, headers = [(''Content-type'', ''text/html'')],
                   body = str ''\<newline>                <html>\<newline>                    <body>\<newline>                        <h1>Authorization failed</h1>\<newline>                        <p>Error: Unknown error</p>\<newline>                    </body>\<newline>                </html>\<newline>            ''\<rparr>)
   \<and> do_GET lenient ''/callback?code='' None = do_GET lenient ''/callback'' None
   \<and> do_GET lenient ''/callback?code='' None =
       Inr (None, \<lparr>status = 400, headers = [(''Content-type'', ''text/html'')],
                   body = str ''\<newline>                <html>\<newline>                    <body>\<newline>                        <h1>Authorization failed</h1>\<newline>                        <p>Error: Unknown error</p>\<newline>                    </body>\<newline>                </html>\<newline>            ''\<rparr>)"
proof -
  have q1: "str (query \<lparr>scheme = [], netloc = [], url = ''/callback'',
                         query = ''code=&state=abc'', fragment = []\<rparr>) =
            join (str ''&'') ([] @ [str ''code'' @ str ''=''] @ [str ''state=abc''])"
    and q2: "str (query \<lparr>scheme = [], netloc = [], url = ''/callback'',
                          query = ''state=abc'', fragment = []\<rparr>) =
             join (str ''&'') ([] @ [str ''state=abc''])"
    and q3: "str (query \<lparr>scheme = [], netloc = [], url = ''/callback'',
                          query = ''code='', fragment = []\<rparr>) =
             join (str ''&'') ([] @ [str ''code'' @ str ''=''] @ [])"
    and q4: "str (query \<lparr>scheme = [], netloc = [], url = ''/callback'',
                          query = [], fragment = []\<rparr>) =
             join (str ''&'') ([] @ [])"
    by (simp_all add: str_def)
  have f1: "\<forall>f\<in>set ([] @ [str ''state=abc'']). 38 \<notin> set f"
    and f2: "\<forall>f\<in>set ([] @ ([] :: pystr list)). 38 \<notin> set f"
    and n1: "38 \<notin> set (str ''code'')" and n2: "61 \<notin> set (str ''code'')"
    by (simp_all add: str_def)
  have s: "parse_qs (str (query \<lparr>scheme = [], netloc = [], url = ''/callback'',
                                     query = ''state=abc'', fragment = []\<rparr>)) (str ''code'') = None
           \<and> parse_qs (str (query \<lparr>scheme = [], netloc = [], url = ''/callback'',
                                       query = ''state=abc'', fragment = []\<rparr>)) (str ''error'') = None"
    by (simp add: parse_qs_state_code parse_qs_state_error)
  have e: "parse_qs (str (query \<lparr>scheme = [], netloc = [], url = ''/callback'',
                                     query = [], fragment = []\<rparr>)) (str ''code'') = None
           \<and> parse_qs (str (query \<lparr>scheme = [], netloc = [], url = ''/callback'',
                                       query = [], fragment = []\<rparr>)) (str ''error'') = None"
    by (simp add: parse_qs_empty)
  show ?thesis
    using do_GET_blank_field_dropped [OF urlsplit_blank_state urlsplit_state q1 q2 f1 n1 n2,
        of None]
      do_GET_blank_field_dropped [OF urlsplit_blank urlsplit_bare q3 q4 f2 n1 n2, of None]
      s e
    by blast
qed

end
